theory Spec2Isabelle
  imports Main
begin

section \<open>Strings\<close>

text \<open>
  Two kinds of Python string occur in \<^verbatim>\<open>start-server.py\<close>.

  \<^item> What goes over the socket is \<^verbatim>\<open>bytes\<close>: a list of 8-bit characters, the HOL type
    \<open>string\<close>. Header names and values are \<^verbatim>\<open>str\<close> objects that the library encodes
    with \<^verbatim>\<open>latin-1\<close>, one byte per code point, so a header string is modelled by the
    bytes it encodes to.
  \<^item> What is printed on the console is \<^verbatim>\<open>str\<close> with Cyrillic text and emoji: a list of
    Unicode code points, \<open>pystr\<close>.
\<close>

type_synonym bytes = string

type_synonym pystr = "nat list"

definition asc :: "string \<Rightarrow> pystr" where
  "asc s = map of_char s"

definition CRLF :: bytes where
  "CRLF = [CHR 0x0D, CHR 0x0A]"

text \<open>\<^verbatim>\<open>str(n)\<close> and \<^verbatim>\<open>"%d" % n\<close> for an integer: its decimal digits.\<close>

fun str_nat :: "nat \<Rightarrow> string" where
  "str_nat n = (if n < 10 then [char_of (48 + n)] else str_nat (n div 10) @ [char_of (48 + n mod 10)])"

declare str_nat.simps [simp del]

definition str_int :: "int \<Rightarrow> string" where
  "str_int i = (if i < 0 then CHR ''-'' # str_nat (nat (- i)) else str_nat (nat i))"

text \<open>
  \<^verbatim>\<open>str.lower()\<close> on code points below 256: the ASCII capitals and the Latin-1 capitals
  (192..214 and 216..222) move up by 32, every other code point stays.
\<close>

definition lower_char :: "char \<Rightarrow> char" where
  "lower_char c =
     (let n = (of_char c :: nat)
      in if (65 \<le> n \<and> n \<le> 90) \<or> (192 \<le> n \<and> n \<le> 214) \<or> (216 \<le> n \<and> n \<le> 222)
         then char_of (n + 32) else c)"

definition lower :: "string \<Rightarrow> string" where
  "lower s = map lower_char s"

text \<open>\<^verbatim>\<open>str.isspace()\<close> on code points below 256, and \<^verbatim>\<open>str.rstrip()\<close>.\<close>

definition isspace :: "char \<Rightarrow> bool" where
  "isspace c = ((of_char c :: nat) \<in> {9, 10, 11, 12, 13, 28, 29, 30, 31, 32, 133, 160})"

definition rstrip :: "string \<Rightarrow> string" where
  "rstrip s = rev (dropWhile isspace (rev s))"

definition startswith :: "string \<Rightarrow> string \<Rightarrow> bool" where
  "startswith s p = (take (length p) s = p)"

definition endswith :: "string \<Rightarrow> string \<Rightarrow> bool" where
  "endswith s p = (length p \<le> length s \<and> drop (length s - length p) s = p)"

text \<open>\<^verbatim>\<open>s.split(c)\<close> for a one-character separator, and \<^verbatim>\<open>c.join(ws)\<close>.\<close>

fun split_on :: "char \<Rightarrow> string \<Rightarrow> string list" where
  "split_on c [] = [[]]"
| "split_on c (x # xs) =
     (if x = c then [] # split_on c xs
      else (case split_on c xs of [] \<Rightarrow> [[x]] | w # ws \<Rightarrow> (x # w) # ws))"

fun join_with :: "string \<Rightarrow> string list \<Rightarrow> string" where
  "join_with sep [] = []"
| "join_with sep [w] = w"
| "join_with sep (w # v # ws) = w @ sep @ join_with sep (v # ws)"

text \<open>
  \<^verbatim>\<open>s.split()\<close>: the words of \<open>s\<close>, what stands between runs of white space; and
  \<^verbatim>\<open>s.rstrip('\r\n')\<close>.
\<close>

fun split_where :: "(char \<Rightarrow> bool) \<Rightarrow> string \<Rightarrow> string list" where
  "split_where P [] = [[]]"
| "split_where P (x # xs) =
     (if P x then [] # split_where P xs
      else (case split_where P xs of [] \<Rightarrow> [[x]] | w # ws \<Rightarrow> (x # w) # ws))"

definition split_ws :: "string \<Rightarrow> string list" where
  "split_ws s = filter (\<lambda>w. w \<noteq> []) (split_where isspace s)"

definition rstrip_crlf :: "string \<Rightarrow> string" where
  "rstrip_crlf s = rev (dropWhile (\<lambda>c. c = CHR 0x0D \<or> c = CHR 0x0A) (rev s))"

text \<open>
  \<^verbatim>\<open>str.isdigit()\<close> on code points below 256: the ASCII digits and the superscripts
  two, three and one; the empty string is no digit string. \<^verbatim>\<open>int(s)\<close> of such a string
  raises \<^verbatim>\<open>ValueError\<close> (here \<open>None\<close>) unless every character is an ASCII digit.
\<close>

definition isdigit :: "string \<Rightarrow> bool" where
  "isdigit s =
     (s \<noteq> [] \<and> list_all (\<lambda>c. (48 \<le> (of_char c :: nat) \<and> (of_char c :: nat) \<le> 57)
                                \<or> (of_char c :: nat) \<in> {178, 179, 185}) s)"

definition py_int :: "string \<Rightarrow> nat option" where
  "py_int s =
     (if s \<noteq> [] \<and> list_all (\<lambda>c. 48 \<le> (of_char c :: nat) \<and> (of_char c :: nat) \<le> 57) s
      then Some (foldl (\<lambda>n c. 10 * n + (of_char c - 48)) 0 s)
      else None)"

text \<open>\<^verbatim>\<open>s.split(c, 1)[0]\<close>: the part of \<open>s\<close> before the first \<open>c\<close>.\<close>

definition before_first :: "char \<Rightarrow> string \<Rightarrow> string" where
  "before_first c s = takeWhile (\<lambda>x. x \<noteq> c) s"

section \<open>The request handler\<close>

subsection \<open>The handler object\<close>

text \<open>
  \<^verbatim>\<open>MyHTTPRequestHandler\<close> extends the library class
  \<^verbatim>\<open>http.server.SimpleHTTPRequestHandler\<close> and overrides one method, \<^verbatim>\<open>end_headers\<close>.
  The record holds the attributes of a handler instance that the methods below read or
  write. \<open>headers_buffer\<close> is \<open>None\<close> while the attribute \<^verbatim>\<open>_headers_buffer\<close> does not
  exist. \<open>wfile\<close> is every byte written to the connection so far. \<open>command\<close> is \<open>None\<close>
  when the request line could not be parsed. \<open>headers\<close> are the request's header
  fields, in order.
\<close>

record handler =
  request_version :: string
  command :: "string option"
  path :: string
  headers :: "(string \<times> string) list"
  directory :: string
  headers_buffer :: "bytes list option"
  wfile :: bytes
  close_connection :: bool

datatype pyerror = AttributeError | TypeError

subsection \<open>Library methods the override calls\<close>

text \<open>
  \<^verbatim>\<open>BaseHTTPRequestHandler.send_header\<close>:
  \<^verbatim>\<open>
    def send_header(self, keyword, value):
        if self.request_version != 'HTTP/0.9':
            if not hasattr(self, '_headers_buffer'):
                self._headers_buffer = []
            self._headers_buffer.append(
                ("%s: %s\r\n" % (keyword, value)).encode('latin-1', 'strict'))
        if keyword.lower() == 'connection':
            if value.lower() == 'close':
                self.close_connection = True
            elif value.lower() == 'keep-alive':
                self.close_connection = False
  \<close>
\<close>

definition buffered :: "handler \<Rightarrow> bytes list" where
  "buffered h = (case headers_buffer h of None \<Rightarrow> [] | Some b \<Rightarrow> b)"

definition send_header :: "string \<Rightarrow> string \<Rightarrow> handler \<Rightarrow> handler" where
  "send_header keyword val h =
     (let h1 = (if request_version h \<noteq> ''HTTP/0.9''
                then h\<lparr>headers_buffer := Some (buffered h @ [keyword @ '': '' @ val @ CRLF])\<rparr>
                else h)
      in if lower keyword = ''connection''
         then (if lower val = ''close'' then h1\<lparr>close_connection := True\<rparr>
               else if lower val = ''keep-alive'' then h1\<lparr>close_connection := False\<rparr>
               else h1)
         else h1)"

text \<open>
  \<^verbatim>\<open>BaseHTTPRequestHandler.flush_headers\<close> and \<^verbatim>\<open>BaseHTTPRequestHandler.end_headers\<close>,
  the method that \<^verbatim>\<open>super().end_headers()\<close> reaches:
  \<^verbatim>\<open>
    def end_headers(self):
        if self.request_version != 'HTTP/0.9':
            self._headers_buffer.append(b"\r\n")
            self.flush_headers()

    def flush_headers(self):
        if hasattr(self, '_headers_buffer'):
            self.wfile.write(b"".join(self._headers_buffer))
            self._headers_buffer = []
  \<close>
  Appending to an attribute that does not exist raises \<^verbatim>\<open>AttributeError\<close>; the other
  error of the model, \<^verbatim>\<open>TypeError\<close>, is what \<^verbatim>\<open>'do_' + None\<close> raises.
\<close>

definition flush_headers :: "handler \<Rightarrow> handler" where
  "flush_headers h =
     (case headers_buffer h of
        None \<Rightarrow> h
      | Some b \<Rightarrow> h\<lparr>wfile := wfile h @ concat b, headers_buffer := Some []\<rparr>)"

definition base_end_headers :: "handler \<Rightarrow> pyerror + handler" where
  "base_end_headers h =
     (if request_version h \<noteq> ''HTTP/0.9''
      then (case headers_buffer h of
              None \<Rightarrow> Inl AttributeError
            | Some b \<Rightarrow> Inr (flush_headers (h\<lparr>headers_buffer := Some (b @ [CRLF])\<rparr>)))
      else Inr h)"

subsection \<open>The override\<close>

text \<open>
  \<^verbatim>\<open>
    class MyHTTPRequestHandler(http.server.SimpleHTTPRequestHandler):
        def end_headers(self):
            # Add CORS headers for Web Workers
            self.send_header('Access-Control-Allow-Origin', '*')
            self.send_header('Access-Control-Allow-Methods', 'GET')
            self.send_header('Cache-Control', 'no-store, no-cache, must-revalidate')
            super().end_headers()
  \<close>
\<close>

definition end_headers :: "handler \<Rightarrow> pyerror + handler" where
  "end_headers h =
     (let h1 = send_header ''Access-Control-Allow-Origin'' ''*'' h;
          h2 = send_header ''Access-Control-Allow-Methods'' ''GET'' h1;
          h3 = send_header ''Cache-Control'' ''no-store, no-cache, must-revalidate'' h2
      in base_end_headers h3)"

text \<open>The three header lines of the spec's Response Header Set, as they go on the wire.\<close>

definition fixed_headers :: "bytes list" where
  "fixed_headers =
     [''Access-Control-Allow-Origin: *'' @ CRLF,
      ''Access-Control-Allow-Methods: GET'' @ CRLF,
      ''Cache-Control: no-store, no-cache, must-revalidate'' @ CRLF]"

section \<open>The inherited file server\<close>

text \<open>
  Everything else a handler does is inherited from the Python library
  (\<^verbatim>\<open>http/server.py\<close>, \<^verbatim>\<open>posixpath.py\<close>). The methods that decide what a response
  holds are modelled here from the library's source, POSIX flavour. What they take from
  the machine, and the helpers that only format text, are fields of \<open>env\<close>:

  \<^item> \<open>unquote\<close>: \<^verbatim>\<open>urllib.parse.unquote\<close> as \<^verbatim>\<open>translate_path\<close> calls it;
  \<^item> \<open>isdir\<close>, \<open>isfile\<close>, \<open>listdir\<close>: \<^verbatim>\<open>os.path.isdir\<close>, \<^verbatim>\<open>os.path.isfile\<close>,
    \<^verbatim>\<open>os.listdir\<close> (\<open>None\<close> when it raises \<^verbatim>\<open>OSError\<close>);
  \<^item> \<open>open_rb\<close>: \<^verbatim>\<open>open(path, 'rb')\<close>, \<open>None\<close> when it raises \<^verbatim>\<open>OSError\<close>, else the
    file's bytes and its \<^verbatim>\<open>st_mtime\<close> in whole seconds;
  \<^item> \<open>guess_type\<close>, \<open>version_string\<close>, \<open>date_time_string\<close>, \<open>responses\<close>: the handler's
    methods and table of these names;
  \<^item> \<open>error_page\<close>: the HTML body \<^verbatim>\<open>send_error\<close> builds from code, message and
    explanation; \<open>listing_page\<close>: the HTML \<^verbatim>\<open>list_directory\<close> builds from the
    directory, the request path and the names;
  \<^item> \<open>fs_encoding\<close>: \<^verbatim>\<open>sys.getfilesystemencoding()\<close>;
  \<^item> \<open>url_path\<close>: \<^verbatim>\<open>urllib.parse.urlsplit(p).path\<close>; \<open>url_with_slash\<close>: the URL
    \<^verbatim>\<open>send_head\<close> redirects to, \<open>p\<close> with \<^verbatim>\<open>/\<close> added to its path;
  \<^item> \<open>parsedate_to_datetime\<close>: \<^verbatim>\<open>email.utils.parsedate_to_datetime\<close>, \<open>None\<close> when
    it raises, else the time in seconds since the epoch and the kind of its
    \<^verbatim>\<open>tzinfo\<close>;
  \<^item> \<open>repr\<close>: \<^verbatim>\<open>repr\<close> of a string.

  Writes to the connection and to the log are taken to succeed.
\<close>

datatype tzinfo = TzNone | TzUTC | TzOther

record env =
  unquote :: "string \<Rightarrow> string"
  isdir :: "string \<Rightarrow> bool"
  isfile :: "string \<Rightarrow> bool"
  listdir :: "string \<Rightarrow> string list option"
  open_rb :: "string \<Rightarrow> (bytes \<times> int) option"
  guess_type :: "string \<Rightarrow> string"
  version_string :: string
  date_time_string :: "int option \<Rightarrow> string"
  responses :: "int \<Rightarrow> (string \<times> string) option"
  error_page :: "int \<Rightarrow> string \<Rightarrow> string \<Rightarrow> bytes"
  listing_page :: "string \<Rightarrow> string \<Rightarrow> string list \<Rightarrow> bytes"
  fs_encoding :: string
  url_path :: "string \<Rightarrow> string"
  url_with_slash :: "string \<Rightarrow> string"
  parsedate_to_datetime :: "string \<Rightarrow> (int \<times> tzinfo) option"
  repr :: "string \<Rightarrow> string"

subsection \<open>Status line and error responses\<close>

text \<open>
  \<^verbatim>\<open>
    protocol_version = "HTTP/1.0"

    def send_response_only(self, code, message=None):
        if self.request_version != 'HTTP/0.9':
            if message is None:
                if code in self.responses:
                    message = self.responses[code][0]
                else:
                    message = ''
            if not hasattr(self, '_headers_buffer'):
                self._headers_buffer = []
            self._headers_buffer.append(("%s %d %s\r\n" %
                    (self.protocol_version, code, message)).encode(
                        'latin-1', 'strict'))

    def send_response(self, code, message=None):
        self.log_request(code)
        self.send_response_only(code, message)
        self.send_header('Server', self.version_string())
        self.send_header('Date', self.date_time_string())
  \<close>
\<close>

definition protocol_version :: string where
  "protocol_version = ''HTTP/1.0''"

definition send_response_only :: "env \<Rightarrow> int \<Rightarrow> string option \<Rightarrow> handler \<Rightarrow> handler" where
  "send_response_only env code message h =
     (if request_version h \<noteq> ''HTTP/0.9''
      then (let msg = (case message of
                         Some m \<Rightarrow> m
                       | None \<Rightarrow> (case responses env code of
                                    Some (short, long) \<Rightarrow> short
                                  | None \<Rightarrow> []))
            in h\<lparr>headers_buffer :=
                   Some (buffered h @
                         [protocol_version @ '' '' @ str_int code @ '' '' @ msg @ CRLF])\<rparr>)
      else h)"

definition send_response :: "env \<Rightarrow> int \<Rightarrow> string option \<Rightarrow> handler \<Rightarrow> handler" where
  "send_response env code message h =
     (let h1 = send_response_only env code message h;
          h2 = send_header ''Server'' (version_string env) h1
      in send_header ''Date'' (date_time_string env None) h2)"

text \<open>
  \<^verbatim>\<open>
    error_content_type = "text/html;charset=utf-8"

    def send_error(self, code, message=None, explain=None):
        try:
            shortmsg, longmsg = self.responses[code]
        except KeyError:
            shortmsg, longmsg = '???', '???'
        if message is None:
            message = shortmsg
        if explain is None:
            explain = longmsg
        self.log_error("code %d, message %s", code, message)
        self.send_response(code, message)
        self.send_header('Connection', 'close')
        body = None
        if (code >= 200 and
            code not in (HTTPStatus.NO_CONTENT,
                         HTTPStatus.RESET_CONTENT,
                         HTTPStatus.NOT_MODIFIED)):
            content = (self.error_message_format % {...})
            body = content.encode('UTF-8', 'replace')
            self.send_header("Content-Type", self.error_content_type)
            self.send_header('Content-Length', str(len(body)))
        self.end_headers()
        if self.command != 'HEAD' and body:
            self.wfile.write(body)
  \<close>
  \<^verbatim>\<open>self.end_headers()\<close> is the override of \<^verbatim>\<open>MyHTTPRequestHandler\<close>, here and in every
  method below.
\<close>

definition error_content_type :: string where
  "error_content_type = ''text/html;charset=utf-8''"

definition send_error :: "env \<Rightarrow> int \<Rightarrow> string option \<Rightarrow> string option \<Rightarrow> handler \<Rightarrow> pyerror + handler" where
  "send_error env code message explain h =
     (let (shortmsg, longmsg) =
            (case responses env code of Some sl \<Rightarrow> sl | None \<Rightarrow> (''???'', ''???''));
          msg = (case message of None \<Rightarrow> shortmsg | Some m \<Rightarrow> m);
          expl = (case explain of None \<Rightarrow> longmsg | Some x \<Rightarrow> x);
          h1 = send_response env code (Some msg) h;
          h2 = send_header ''Connection'' ''close'' h1;
          body = (if code \<ge> 200 \<and> code \<notin> {204, 205, 304}
                  then Some (error_page env code msg expl) else None);
          h3 = (case body of
                  None \<Rightarrow> h2
                | Some b \<Rightarrow>
                    send_header ''Content-Length'' (str_nat (length b))
                      (send_header ''Content-Type'' error_content_type h2))
      in case end_headers h3 of
           Inl e \<Rightarrow> Inl e
         | Inr h4 \<Rightarrow>
             Inr (case body of
                    None \<Rightarrow> h4
                  | Some b \<Rightarrow>
                      if command h4 \<noteq> Some ''HEAD'' \<and> b \<noteq> []
                      then h4\<lparr>wfile := wfile h4 @ b\<rparr> else h4))"

subsection \<open>From request path to file name\<close>

text \<open>
  \<^verbatim>\<open>posixpath.join\<close> for two arguments and \<^verbatim>\<open>posixpath.dirname\<close>:
  \<^verbatim>\<open>
    def join(a, *p):
        path = a
        for b in p:
            if b.startswith(sep):
                path = b
            elif not path or path.endswith(sep):
                path += b
            else:
                path += sep + b
        return path

    def dirname(p):
        i = p.rfind(sep) + 1
        head = p[:i]
        if head and head != sep*len(head):
            head = head.rstrip(sep)
        return head
  \<close>
\<close>

definition join :: "string \<Rightarrow> string \<Rightarrow> string" where
  "join a b =
     (if startswith b ''/'' then b
      else if a = [] \<or> endswith a ''/'' then a @ b
      else a @ ''/'' @ b)"

definition dirname :: "string \<Rightarrow> string" where
  "dirname p =
     (let head = rev (dropWhile (\<lambda>c. c \<noteq> CHR ''/'') (rev p))
      in if head \<noteq> [] \<and> head \<noteq> replicate (length head) CHR ''/''
         then rev (dropWhile (\<lambda>c. c = CHR ''/'') (rev head))
         else head)"

text \<open>
  \<^verbatim>\<open>posixpath.normpath\<close>:
  \<^verbatim>\<open>
    def normpath(path):
        if path == empty:
            return dot
        initial_slashes = path.startswith(sep)
        # POSIX allows one or two initial slashes, but treats three or more
        # as single slash.
        if (initial_slashes and
            path.startswith(sep*2) and not path.startswith(sep*3)):
            initial_slashes = 2
        comps = path.split(sep)
        new_comps = []
        for comp in comps:
            if comp in (empty, dot):
                continue
            if (comp != dotdot or (not initial_slashes and not new_comps) or
                 (new_comps and new_comps[-1] == dotdot)):
                new_comps.append(comp)
            elif new_comps:
                new_comps.pop()
        comps = new_comps
        path = sep.join(comps)
        if initial_slashes:
            path = sep*initial_slashes + path
        return path or dot
  \<close>
\<close>

definition initial_slashes :: "string \<Rightarrow> nat" where
  "initial_slashes p =
     (if startswith p ''/''
      then (if startswith p ''//'' \<and> \<not> startswith p ''///'' then 2 else 1)
      else 0)"

definition normpath_step :: "nat \<Rightarrow> string list \<Rightarrow> string \<Rightarrow> string list" where
  "normpath_step slashes new_comps c =
     (if c = [] \<or> c = ''.'' then new_comps
      else if c \<noteq> ''..'' \<or> (slashes = 0 \<and> new_comps = [])
              \<or> (new_comps \<noteq> [] \<and> last new_comps = ''..'')
           then new_comps @ [c]
      else if new_comps \<noteq> [] then butlast new_comps
      else new_comps)"

definition normpath :: "string \<Rightarrow> string" where
  "normpath p =
     (if p = [] then ''.''
      else (let n = initial_slashes p;
                comps = foldl (normpath_step n) [] (split_on CHR ''/'' p);
                q = replicate n CHR ''/'' @ join_with ''/'' comps
            in if q = [] then ''.'' else q))"

text \<open>
  \<^verbatim>\<open>
    def translate_path(self, path):
        # abandon query parameters
        path = path.split('?',1)[0]
        path = path.split('#',1)[0]
        # Don't forget explicit trailing slash when normalizing. Issue17324
        trailing_slash = path.rstrip().endswith('/')
        try:
            path = urllib.parse.unquote(path, errors='surrogatepass')
        except UnicodeDecodeError:
            path = urllib.parse.unquote(path)
        path = posixpath.normpath(path)
        words = path.split('/')
        words = filter(None, words)
        path = self.directory
        for word in words:
            if os.path.dirname(word) or word in (os.curdir, os.pardir):
                # Ignore components that are not a simple file/directory name
                continue
            path = os.path.join(path, word)
        if trailing_slash:
            path += '/'
        return path
  \<close>
  \<open>path_words\<close> is the list of words the loop joins to the directory.
\<close>

definition simple_name :: "string \<Rightarrow> bool" where
  "simple_name word = (\<not> (dirname word \<noteq> [] \<or> word = ''.'' \<or> word = ''..''))"

definition path_words :: "env \<Rightarrow> string \<Rightarrow> string list" where
  "path_words env p =
     (let p1 = before_first CHR ''?'' p;
          p2 = before_first CHR ''#'' p1;
          p3 = normpath (unquote env p2);
          words = filter (\<lambda>w. w \<noteq> []) (split_on CHR ''/'' p3)
      in filter simple_name words)"

definition trailing_slash :: "string \<Rightarrow> bool" where
  "trailing_slash p =
     endswith (rstrip (before_first CHR ''#'' (before_first CHR ''?'' p))) ''/''"

definition translate_path :: "env \<Rightarrow> handler \<Rightarrow> string \<Rightarrow> string" where
  "translate_path env h p =
     (let res = foldl join (directory h) (path_words env p)
      in if trailing_slash p then res @ ''/'' else res)"

subsection \<open>Serving a file or a directory\<close>

text \<open>
  The request's header fields are an \<^verbatim>\<open>email.message.Message\<close>: \<^verbatim>\<open>name in headers\<close>
  and \<^verbatim>\<open>headers[name]\<close> compare names without regard to case and take the first
  field that matches.
\<close>

definition get_header :: "string \<Rightarrow> (string \<times> string) list \<Rightarrow> string option" where
  "get_header name hs = map_option snd (find (\<lambda>kv. lower (fst kv) = lower name) hs)"

text \<open>
  The conditional-request test of \<^verbatim>\<open>send_head\<close>, on a file last modified at \<open>mtime\<close>:
  \<^verbatim>\<open>
            if ("If-Modified-Since" in self.headers
                    and "If-None-Match" not in self.headers):
                try:
                    ims = email.utils.parsedate_to_datetime(
                        self.headers["If-Modified-Since"])
                except (TypeError, IndexError, OverflowError, ValueError):
                    pass
                else:
                    if ims.tzinfo is None:
                        ims = ims.replace(tzinfo=datetime.timezone.utc)
                    if ims.tzinfo is datetime.timezone.utc:
                        last_modif = datetime.datetime.fromtimestamp(
                            fs.st_mtime, datetime.timezone.utc)
                        last_modif = last_modif.replace(microsecond=0)
                        if last_modif <= ims:
                            self.send_response(HTTPStatus.NOT_MODIFIED)
                            self.end_headers()
                            f.close()
                            return None
  \<close>
\<close>

definition not_modified :: "env \<Rightarrow> handler \<Rightarrow> int \<Rightarrow> bool" where
  "not_modified env h mtime =
     (case get_header ''If-Modified-Since'' (headers h) of
        None \<Rightarrow> False
      | Some v \<Rightarrow>
          (case get_header ''If-None-Match'' (headers h) of
             Some x \<Rightarrow> False
           | None \<Rightarrow>
               (case parsedate_to_datetime env v of
                  None \<Rightarrow> False
                | Some (ims, tz) \<Rightarrow> (tz = TzNone \<or> tz = TzUTC) \<and> mtime \<le> ims)))"

text \<open>
  \<^verbatim>\<open>
    def list_directory(self, path):
        try:
            list = os.listdir(path)
        except OSError:
            self.send_error(
                HTTPStatus.NOT_FOUND,
                "No permission to list directory")
            return None
        ...
        encoded = '\n'.join(r).encode(enc, 'surrogateescape')
        f = io.BytesIO()
        f.write(encoded)
        f.seek(0)
        self.send_response(HTTPStatus.OK)
        self.send_header("Content-type", "text/html; charset=%s" % enc)
        self.send_header("Content-Length", str(len(encoded)))
        self.end_headers()
        return f
  \<close>
  The result of this method and of \<^verbatim>\<open>send_head\<close> is the handler afterwards and the bytes
  of the file object returned, \<open>None\<close> for Python's \<^verbatim>\<open>None\<close>.
\<close>

definition no_file :: "pyerror + handler \<Rightarrow> pyerror + handler \<times> bytes option" where
  "no_file r = (case r of Inl e \<Rightarrow> Inl e | Inr h \<Rightarrow> Inr (h, None))"

definition list_directory :: "env \<Rightarrow> handler \<Rightarrow> string \<Rightarrow> pyerror + handler \<times> bytes option" where
  "list_directory env h p =
     (case listdir env p of
        None \<Rightarrow> no_file (send_error env 404 (Some ''No permission to list directory'') None h)
      | Some names \<Rightarrow>
          (let encoded = listing_page env p (path h) names;
               h1 = send_response env 200 None h;
               h2 = send_header ''Content-type'' (''text/html; charset='' @ fs_encoding env) h1;
               h3 = send_header ''Content-Length'' (str_nat (length encoded)) h2
           in case end_headers h3 of
                Inl e \<Rightarrow> Inl e
              | Inr h4 \<Rightarrow> Inr (h4, Some encoded)))"

text \<open>
  \<^verbatim>\<open>
    index_pages = ("index.html", "index.htm")

    def send_head(self):
        path = self.translate_path(self.path)
        f = None
        if os.path.isdir(path):
            parts = urllib.parse.urlsplit(self.path)
            if not parts.path.endswith('/'):
                # redirect browser - doing basically what apache does
                self.send_response(HTTPStatus.MOVED_PERMANENTLY)
                new_parts = (parts[0], parts[1], parts[2] + '/',
                             parts[3], parts[4])
                new_url = urllib.parse.urlunsplit(new_parts)
                self.send_header("Location", new_url)
                self.send_header("Content-Length", "0")
                self.end_headers()
                return None
            for index in self.index_pages:
                index = os.path.join(path, index)
                if os.path.isfile(index):
                    path = index
                    break
            else:
                return self.list_directory(path)
        ctype = self.guess_type(path)
        if path.endswith("/"):
            self.send_error(HTTPStatus.NOT_FOUND, "File not found")
            return None
        try:
            f = open(path, 'rb')
        except OSError:
            self.send_error(HTTPStatus.NOT_FOUND, "File not found")
            return None
        try:
            fs = os.fstat(f.fileno())
            # Use browser cache if possible
            ... (the conditional-request test above)
            self.send_response(HTTPStatus.OK)
            self.send_header("Content-type", ctype)
            self.send_header("Content-Length", str(fs[6]))
            self.send_header("Last-Modified",
                self.date_time_string(fs.st_mtime))
            self.end_headers()
            return f
        except:
            f.close()
            raise
  \<close>
  \<open>send_file\<close> is the part of \<^verbatim>\<open>send_head\<close> from \<^verbatim>\<open>ctype = ...\<close> on, for the file name it
  has settled on; \<^verbatim>\<open>fs[6]\<close>, the file's size, is the number of bytes read from it.
\<close>

definition index_pages :: "string list" where
  "index_pages = [''index.html'', ''index.htm'']"

definition send_file :: "env \<Rightarrow> handler \<Rightarrow> string \<Rightarrow> pyerror + handler \<times> bytes option" where
  "send_file env h p =
     (let ctype = guess_type env p
      in if endswith p ''/''
         then no_file (send_error env 404 (Some ''File not found'') None h)
         else (case open_rb env p of
                 None \<Rightarrow> no_file (send_error env 404 (Some ''File not found'') None h)
               | Some (content, mtime) \<Rightarrow>
                   if not_modified env h mtime
                   then no_file (end_headers (send_response env 304 None h))
                   else (let h1 = send_response env 200 None h;
                             h2 = send_header ''Content-type'' ctype h1;
                             h3 = send_header ''Content-Length'' (str_nat (length content)) h2;
                             h4 = send_header ''Last-Modified''
                                    (date_time_string env (Some mtime)) h3
                         in case end_headers h4 of
                              Inl e \<Rightarrow> Inl e
                            | Inr h5 \<Rightarrow> Inr (h5, Some content))))"

definition send_head :: "env \<Rightarrow> handler \<Rightarrow> pyerror + handler \<times> bytes option" where
  "send_head env h =
     (let p = translate_path env h (path h)
      in if isdir env p
         then (if \<not> endswith (url_path env (path h)) ''/''
               then (let h1 = send_response env 301 None h;
                         h2 = send_header ''Location'' (url_with_slash env (path h)) h1;
                         h3 = send_header ''Content-Length'' ''0'' h2
                     in no_file (end_headers h3))
               else (case find (\<lambda>index. isfile env (join p index)) index_pages of
                       Some index \<Rightarrow> send_file env h (join p index)
                     | None \<Rightarrow> list_directory env h p))
         else send_file env h p)"

text \<open>
  \<^verbatim>\<open>
    def do_GET(self):
        f = self.send_head()
        if f:
            try:
                self.copyfile(f, self.wfile)
            finally:
                f.close()

    def do_HEAD(self):
        f = self.send_head()
        if f:
            f.close()
  \<close>
\<close>

definition do_GET :: "env \<Rightarrow> handler \<Rightarrow> pyerror + handler" where
  "do_GET env h =
     (case send_head env h of
        Inl e \<Rightarrow> Inl e
      | Inr (h1, None) \<Rightarrow> Inr h1
      | Inr (h1, Some content) \<Rightarrow> Inr (h1\<lparr>wfile := wfile h1 @ content\<rparr>))"

definition do_HEAD :: "env \<Rightarrow> handler \<Rightarrow> pyerror + handler" where
  "do_HEAD env h =
     (case send_head env h of
        Inl e \<Rightarrow> Inl e
      | Inr (h1, f) \<Rightarrow> Inr h1)"

subsection \<open>One request\<close>

text \<open>
  A request as it arrives: the request line as \<^verbatim>\<open>rfile.readline(65537)\<close> gives it (empty
  when the client has closed the connection), and what \<^verbatim>\<open>http.client.parse_headers\<close>
  makes of the lines after it: the header fields, or the exception it raises, with the
  text \<^verbatim>\<open>str(err)\<close> of it.
\<close>

datatype header_error = LineTooLong string | HTTPException string

record request =
  raw_requestline :: bytes
  header_fields :: "header_error + (string \<times> string) list"

text \<open>
  The server makes one handler per connection; its \<^verbatim>\<open>__init__\<close> takes the directory to
  serve from the process's working directory, and \<^verbatim>\<open>handle\<close> starts with the connection
  to be closed:
  \<^verbatim>\<open>
    def __init__(self, *args, directory=None, **kwargs):
        if directory is None:
            directory = os.getcwd()
        self.directory = os.fspath(directory)
        super().__init__(*args, **kwargs)

    def handle(self):
        self.close_connection = True
        self.handle_one_request()
        while not self.close_connection:
            self.handle_one_request()
  \<close>
  The attributes a handler has not been given yet stand with empty values in
  \<open>init_handler\<close>; each is assigned before it is read. With
  \<^verbatim>\<open>protocol_version = "HTTP/1.0"\<close> nothing sets \<open>close_connection\<close> to \<open>False\<close>, so the loop
  of \<^verbatim>\<open>handle\<close> serves one request.
\<close>

definition init_handler :: "string \<Rightarrow> handler" where
  "init_handler dir =
     \<lparr>request_version = [], command = None, path = [], headers = [], directory = dir,
      headers_buffer = None, wfile = [], close_connection = True\<rparr>"

text \<open>
  The version check of \<^verbatim>\<open>parse_request\<close>:
  \<^verbatim>\<open>
                if not version.startswith('HTTP/'):
                    raise ValueError
                base_version_number = version.split('/', 1)[1]
                version_number = base_version_number.split(".")
                if len(version_number) != 2:
                    raise ValueError
                if any(not component.isdigit() for component in version_number):
                    raise ValueError("non digit in http version")
                if any(len(component) > 10 for component in version_number):
                    raise ValueError("unreasonable length http version")
                version_number = int(version_number[0]), int(version_number[1])
  \<close>
  \<open>None\<close> stands for the \<^verbatim>\<open>ValueError\<close>; otherwise the result is
  \<^verbatim>\<open>base_version_number\<close> and the two numbers.
\<close>

definition parse_version :: "string \<Rightarrow> (string \<times> nat \<times> nat) option" where
  "parse_version version =
     (if \<not> startswith version ''HTTP/'' then None
      else (let base_version_number = drop 1 (dropWhile (\<lambda>c. c \<noteq> CHR ''/'') version)
            in case split_on CHR ''.'' base_version_number of
                 [major, minor] \<Rightarrow>
                   if \<not> isdigit major \<or> \<not> isdigit minor then None
                   else if length major > 10 \<or> length minor > 10 then None
                   else (case (py_int major, py_int minor) of
                           (Some a, Some b) \<Rightarrow> Some (base_version_number, a, b)
                         | _ \<Rightarrow> None)
               | _ \<Rightarrow> None))"

text \<open>
  \<^verbatim>\<open>
    default_request_version = "HTTP/0.9"

    def parse_request(self):
        self.command = None  # set in case of error on the first line
        self.request_version = version = self.default_request_version
        self.close_connection = True
        requestline = str(self.raw_requestline, 'iso-8859-1')
        requestline = requestline.rstrip('\r\n')
        self.requestline = requestline
        words = requestline.split()
        if len(words) == 0:
            return False

        if len(words) >= 3:  # Enough to determine protocol version
            version = words[-1]
            try:
                ... (the version check above)
            except (ValueError, IndexError):
                self.send_error(
                    HTTPStatus.BAD_REQUEST,
                    "Bad request version (%r)" % version)
                return False
            if version_number >= (1, 1) and self.protocol_version >= "HTTP/1.1":
                self.close_connection = False
            if version_number >= (2, 0):
                self.send_error(
                    HTTPStatus.HTTP_VERSION_NOT_SUPPORTED,
                    "Invalid HTTP version (%s)" % base_version_number)
                return False
            self.request_version = version

        if not 2 <= len(words) <= 3:
            self.send_error(
                HTTPStatus.BAD_REQUEST,
                "Bad request syntax (%r)" % requestline)
            return False
        command, path = words[:2]
        if len(words) == 2:
            self.close_connection = True
            if command != 'GET':
                self.send_error(
                    HTTPStatus.BAD_REQUEST,
                    "Bad HTTP/0.9 request type (%r)" % command)
                return False
        self.command, self.path = command, path

        if self.path.startswith('//'):
            self.path = '/' + self.path.lstrip('/')  # Reduce to a single /

        # Examine the headers and look for a Connection directive.
        try:
            self.headers = http.client.parse_headers(self.rfile,
                                                     _class=self.MessageClass)
        except http.client.LineTooLong as err:
            self.send_error(
                HTTPStatus.REQUEST_HEADER_FIELDS_TOO_LARGE,
                "Line too long",
                str(err))
            return False
        except http.client.HTTPException as err:
            self.send_error(
                HTTPStatus.REQUEST_HEADER_FIELDS_TOO_LARGE,
                "Too many headers",
                str(err)
            )
            return False

        conntype = self.headers.get('Connection', "")
        if conntype.lower() == 'close':
            self.close_connection = True
        elif (conntype.lower() == 'keep-alive' and
              self.protocol_version >= "HTTP/1.1"):
            self.close_connection = False
        # Examine the headers and look for an Expect directive
        expect = self.headers.get('Expect', "")
        if (expect.lower() == "100-continue" and
                self.protocol_version >= "HTTP/1.1" and
                self.request_version >= "HTTP/1.1"):
            if not self.handle_expect_100():
                return False
        return True
  \<close>
  The request line is bytes read as \<^verbatim>\<open>iso-8859-1\<close>, one character per byte. The tests
  \<^verbatim>\<open>self.protocol_version >= "HTTP/1.1"\<close> are false, since \<^verbatim>\<open>protocol_version\<close> is
  \<^verbatim>\<open>"HTTP/1.0"\<close>, so the branches behind them are left out. The method is modelled in three
  steps, each giving either the result of the \<^verbatim>\<open>send_error\<close> that ends the parse (\<open>Inl\<close>)
  or the handler to go on with (\<open>Inr\<close>); the result of \<open>parse_request\<close> is the value
  returned and the handler afterwards.
\<close>

definition default_request_version :: string where
  "default_request_version = ''HTTP/0.9''"

definition version_step :: "env \<Rightarrow> handler \<Rightarrow> string list \<Rightarrow> (pyerror + handler) + handler" where
  "version_step env h words =
     (if length words \<ge> 3
      then (let version = last words
            in case parse_version version of
                 None \<Rightarrow>
                   Inl (send_error env 400
                          (Some (''Bad request version ('' @ repr env version @ '')'')) None h)
               | Some (base_version_number, a, b) \<Rightarrow>
                   if a > 2 \<or> (a = 2 \<and> b \<ge> 0)
                   then Inl (send_error env 505
                               (Some (''Invalid HTTP version ('' @ base_version_number @ '')''))
                               None h)
                   else Inr (h\<lparr>request_version := version\<rparr>))
      else Inr h)"

definition reduce_slashes :: "string \<Rightarrow> string" where
  "reduce_slashes p =
     (if startswith p ''//'' then ''/'' @ dropWhile (\<lambda>c. c = CHR ''/'') p else p)"

definition command_step :: "env \<Rightarrow> handler \<Rightarrow> string \<Rightarrow> string list \<Rightarrow> (pyerror + handler) + handler" where
  "command_step env h requestline words =
     (case words of
        [cmd, p] \<Rightarrow>
          if cmd \<noteq> ''GET''
          then Inl (send_error env 400
                      (Some (''Bad HTTP/0.9 request type ('' @ repr env cmd @ '')'')) None
                      (h\<lparr>close_connection := True\<rparr>))
          else Inr (h\<lparr>close_connection := True, command := Some cmd, path := reduce_slashes p\<rparr>)
      | [cmd, p, version] \<Rightarrow> Inr (h\<lparr>command := Some cmd, path := reduce_slashes p\<rparr>)
      | _ \<Rightarrow>
          Inl (send_error env 400
                 (Some (''Bad request syntax ('' @ repr env requestline @ '')'')) None h))"

definition headers_step :: "env \<Rightarrow> handler \<Rightarrow> request \<Rightarrow> (pyerror + handler) + handler" where
  "headers_step env h rq =
     (case header_fields rq of
        Inl (LineTooLong err) \<Rightarrow> Inl (send_error env 431 (Some ''Line too long'') (Some err) h)
      | Inl (HTTPException err) \<Rightarrow>
          Inl (send_error env 431 (Some ''Too many headers'') (Some err) h)
      | Inr hs \<Rightarrow>
          Inr (let h1 = h\<lparr>headers := hs\<rparr>
               in if lower (case get_header ''Connection'' hs of None \<Rightarrow> [] | Some v \<Rightarrow> v)
                     = ''close''
                  then h1\<lparr>close_connection := True\<rparr> else h1))"

definition failed :: "pyerror + handler \<Rightarrow> pyerror + bool \<times> handler" where
  "failed r = (case r of Inl e \<Rightarrow> Inl e | Inr h \<Rightarrow> Inr (False, h))"

definition parse_request :: "env \<Rightarrow> request \<Rightarrow> handler \<Rightarrow> pyerror + bool \<times> handler" where
  "parse_request env rq h0 =
     (let h = h0\<lparr>command := None, request_version := default_request_version,
                  close_connection := True\<rparr>;
          requestline = rstrip_crlf (raw_requestline rq);
          words = split_ws requestline
      in if words = [] then Inr (False, h)
         else (case version_step env h words of
                 Inl r \<Rightarrow> failed r
               | Inr h1 \<Rightarrow>
                   (case command_step env h1 requestline words of
                      Inl r \<Rightarrow> failed r
                    | Inr h2 \<Rightarrow>
                        (case headers_step env h2 rq of
                           Inl r \<Rightarrow> failed r
                         | Inr h3 \<Rightarrow> Inr (True, h3)))))"

text \<open>
  \<^verbatim>\<open>
    def handle_one_request(self):
        try:
            self.raw_requestline = self.rfile.readline(65537)
            if len(self.raw_requestline) > 65536:
                self.requestline = ''
                self.request_version = ''
                self.command = ''
                self.send_error(HTTPStatus.REQUEST_URI_TOO_LONG)
                return
            if not self.raw_requestline:
                self.close_connection = True
                return
            if not self.parse_request():
                # An error code has been sent, just exit
                return
            mname = 'do_' + self.command
            if not hasattr(self, mname):
                self.send_error(
                    HTTPStatus.NOT_IMPLEMENTED,
                    "Unsupported method (%r)" % self.command)
                return
            method = getattr(self, mname)
            method()
            self.wfile.flush() #actually send the response if not already done.
        except TimeoutError as e:
            ...
  \<close>
  The methods of a handler whose names start with \<^verbatim>\<open>do_\<close> are \<^verbatim>\<open>do_GET\<close> and \<^verbatim>\<open>do_HEAD\<close>.
\<close>

definition call_method :: "env \<Rightarrow> handler \<Rightarrow> string \<Rightarrow> pyerror + handler" where
  "call_method env h cmd =
     (if cmd = ''GET'' then do_GET env h
      else if cmd = ''HEAD'' then do_HEAD env h
      else send_error env 501 (Some (''Unsupported method ('' @ repr env cmd @ '')'')) None h)"

definition handle_one_request :: "env \<Rightarrow> request \<Rightarrow> handler \<Rightarrow> pyerror + handler" where
  "handle_one_request env rq h =
     (if length (raw_requestline rq) > 65536
      then send_error env 414 None None (h\<lparr>request_version := [], command := Some []\<rparr>)
      else if raw_requestline rq = [] then Inr (h\<lparr>close_connection := True\<rparr>)
      else (case parse_request env rq h of
              Inl e \<Rightarrow> Inl e
            | Inr (False, h1) \<Rightarrow> Inr h1
            | Inr (True, h1) \<Rightarrow>
                (case command h1 of
                   None \<Rightarrow> Inl TypeError
                 | Some cmd \<Rightarrow> call_method env h1 cmd)))"

text \<open>What the client receives for a request, served by a handler made in directory \<open>dir\<close>.\<close>

definition response :: "env \<Rightarrow> string \<Rightarrow> request \<Rightarrow> pyerror + bytes" where
  "response env dir rq =
     (case handle_one_request env rq (init_handler dir) of
        Inl e \<Rightarrow> Inl e
      | Inr h \<Rightarrow> Inr (wfile h))"

section \<open>The program\<close>

subsection \<open>What it prints\<close>

text \<open>
  \<^verbatim>\<open>PORT = 8000\<close>. The messages are Russian text with emoji; each is given by its
  code points, with its meaning in English above it. \<^verbatim>\<open>{PORT}\<close> in an f-string is
  \<^verbatim>\<open>str(PORT)\<close>.
\<close>

definition PORT :: int where
  "PORT = 8000"

definition rule70 :: pystr where
  "rule70 = replicate 70 (of_char CHR ''='')"

text \<open>rocket, ``Stage 8/9 Demo Server started!``\<close>

definition msg_started :: pystr where
  "msg_started =
     [128640] @ asc '' Stage 8/9 Demo Server '' @ [1079, 1072, 1087, 1091, 1097, 1077, 1085] @
     asc ''!''"

text \<open>pin, ``Server runs on http://localhost:PORT``\<close>

definition msg_address :: pystr where
  "msg_address =
     [128205] @ asc '' '' @ [1057, 1077, 1088, 1074, 1077, 1088] @ asc '' '' @
     [1088, 1072, 1073, 1086, 1090, 1072, 1077, 1090] @ asc '' '' @ [1085, 1072] @
     asc '' http://localhost:'' @ asc (str_int PORT)"

text \<open>``Open in the browser:``\<close>

definition msg_open :: pystr where
  "msg_open =
     [1054, 1090, 1082, 1088, 1086, 1081, 1090, 1077] @ asc '' '' @ [1074] @ asc '' '' @
     [1073, 1088, 1072, 1091, 1079, 1077, 1088, 1077] @ asc '':''"

text \<open>bullet, the Stage 8 demo URL\<close>

definition msg_stage8 :: pystr where
  "msg_stage8 =
     asc ''  '' @ [8226] @ asc '' Stage 8 Demo: http://localhost:'' @ asc (str_int PORT) @
     asc ''/stage8-vfs-demo.html''"

text \<open>bullet, the Stage 9 demo URL\<close>

definition msg_stage9 :: pystr where
  "msg_stage9 =
     asc ''  '' @ [8226] @ asc '' Stage 9 Demo: http://localhost:'' @ asc (str_int PORT) @
     asc ''/stage9-ml-demo.html''"

text \<open>``Press Ctrl+C to stop the server``\<close>

definition msg_ctrl_c :: pystr where
  "msg_ctrl_c =
     [1053, 1072, 1078, 1084, 1080, 1090, 1077] @ asc '' Ctrl+C '' @ [1076, 1083, 1103] @
     asc '' '' @ [1086, 1089, 1090, 1072, 1085, 1086, 1074, 1082, 1080] @ asc '' '' @
     [1089, 1077, 1088, 1074, 1077, 1088, 1072]"

text \<open>two newlines, waving hand, ``Server stopped``\<close>

definition msg_stopped :: pystr where
  "msg_stopped =
     [10, 10, 128075] @ asc '' '' @ [1057, 1077, 1088, 1074, 1077, 1088] @ asc '' '' @
     [1086, 1089, 1090, 1072, 1085, 1086, 1074, 1083, 1077, 1085]"

text \<open>newline, cross mark, ``ERROR: Port PORT is already in use!``\<close>

definition msg_port_in_use :: pystr where
  "msg_port_in_use =
     [10, 10060] @ asc '' '' @ [1054, 1064, 1048, 1041, 1050, 1040] @ asc '': '' @
     [1055, 1086, 1088, 1090] @ asc '' '' @ asc (str_int PORT) @ asc '' '' @
     [1091, 1078, 1077] @ asc '' '' @
     [1080, 1089, 1087, 1086, 1083, 1100, 1079, 1091, 1077, 1090, 1089, 1103] @ asc ''!''"

text \<open>newline, ``Try:``\<close>

definition msg_try :: pystr where
  "msg_try =
     [10, 1055, 1086, 1087, 1088, 1086, 1073, 1091, 1081, 1090, 1077] @ asc '':''"

text \<open>``  1. Stop the other process on port PORT``\<close>

definition msg_stop_other :: pystr where
  "msg_stop_other =
     asc ''  1. '' @ [1054, 1089, 1090, 1072, 1085, 1086, 1074, 1080, 1090, 1100] @
     asc '' '' @ [1076, 1088, 1091, 1075, 1086, 1081] @ asc '' '' @
     [1087, 1088, 1086, 1094, 1077, 1089, 1089] @ asc '' '' @ [1085, 1072] @ asc '' '' @
     [1087, 1086, 1088, 1090, 1091] @ asc '' '' @ asc (str_int PORT)"

text \<open>``  2. Change PORT in the script to another one (for example, 8080)``\<close>

definition msg_change_port :: pystr where
  "msg_change_port =
     asc ''  2. '' @ [1048, 1079, 1084, 1077, 1085, 1080, 1090, 1100] @ asc '' PORT '' @
     [1074] @ asc '' '' @ [1089, 1082, 1088, 1080, 1087, 1090, 1077] @ asc '' '' @
     [1085, 1072] @ asc '' '' @ [1076, 1088, 1091, 1075, 1086, 1081] @ asc '' ('' @
     [1085, 1072, 1087, 1088, 1080, 1084, 1077, 1088] @ asc '', 8080)''"

text \<open>The thirteen \<^verbatim>\<open>print\<close> calls between binding the socket and \<^verbatim>\<open>serve_forever\<close>.\<close>

definition banner :: "pystr list" where
  "banner =
     [rule70, msg_started, rule70, [], msg_address, [], msg_open, msg_stage8, msg_stage9, [],
      msg_ctrl_c, rule70, []]"

subsection \<open>The world around it\<close>

text \<open>
  An exception is a \<^verbatim>\<open>KeyboardInterrupt\<close>, an \<^verbatim>\<open>OSError\<close> (or a subclass of it) with its
  \<^verbatim>\<open>errno\<close> attribute, which may be \<^verbatim>\<open>None\<close>, or anything else, by name.

  The world says what the program meets when it runs:
  \<^item> \<open>initial_cwd\<close>: the working directory the process starts in;
  \<^item> \<open>script_file\<close>: the value of \<^verbatim>\<open>__file__\<close>;
  \<^item> \<open>chdir_raises\<close>: the exception \<^verbatim>\<open>os.chdir\<close> raises, if any;
  \<^item> \<open>resolved\<close>: for a directory name \<open>d\<close>, what \<^verbatim>\<open>os.getcwd()\<close> returns once
    \<^verbatim>\<open>os.chdir(d)\<close> has succeeded: a name of the same directory, with symbolic links
    resolved;
  \<^item> \<open>bind_raises\<close>: the exception the constructor
    \<^verbatim>\<open>socketserver.TCPServer(("", PORT), Handler)\<close> raises, if any; the constructor is where
    the socket is created, bound and put to listening;
  \<^item> \<open>body_raises\<close>: the exception raised inside the \<^verbatim>\<open>with\<close> block, if any, and the
    number of the statement it is raised in (0..12 the \<^verbatim>\<open>print\<close> calls, from 13 on
    \<^verbatim>\<open>serve_forever\<close>); \<^verbatim>\<open>serve_forever\<close> returns in no other way, since nothing calls
    \<^verbatim>\<open>shutdown\<close>;
  \<^item> \<open>requests\<close>: the requests served before that, in order.

  The \<^verbatim>\<open>print\<close> calls of the two handlers are taken to succeed.
\<close>

datatype exn = KeyboardInterrupt | OSError "int option" | OtherException string

record world =
  initial_cwd :: string
  script_file :: string
  chdir_raises :: "exn option"
  resolved :: "string \<Rightarrow> string"
  bind_raises :: "exn option"
  body_raises :: "(nat \<times> exn) option"
  requests :: "request list"

text \<open>
  What the program does that can be seen from outside, in order, and how it ends: with
  \<^verbatim>\<open>sys.exit(n)\<close>, with an exception that leaves \<^verbatim>\<open>main\<close>, or not at all.
\<close>

datatype event =
    Chdir string
  | Bind string int
  | Print pystr
  | Respond "pyerror + bytes"
  | ServerClose

datatype outcome = Exit int | Raised exn | Serving

text \<open>
  The process state the program changes: its working directory, by the name
  \<^verbatim>\<open>os.getcwd()\<close> returns.
\<close>

record process =
  cwd :: string

subsection \<open>main\<close>

text \<open>
  \<^verbatim>\<open>
    def abspath(path):
        if not isabs(path):
            cwd = os.getcwd()
            path = join(cwd, path)
        return normpath(path)
  \<close>
\<close>

definition abspath :: "process \<Rightarrow> string \<Rightarrow> string" where
  "abspath p f = normpath (if \<not> startswith f ''/'' then join (cwd p) f else f)"

text \<open>
  \<^verbatim>\<open>serve_forever\<close> hands each request to a new handler, whose \<^verbatim>\<open>__init__\<close> reads
  \<^verbatim>\<open>os.getcwd()\<close>.
\<close>

definition serve_forever :: "env \<Rightarrow> process \<Rightarrow> request list \<Rightarrow> event list" where
  "serve_forever env p rqs = map (\<lambda>rq. Respond (response env (cwd p) rq)) rqs"

text \<open>
  \<^verbatim>\<open>
        with socketserver.TCPServer(("", PORT), Handler) as httpd:
            print("=" * 70)
            ... (twelve more print calls)
            httpd.serve_forever()
  \<close>
  The block gives the events and the exception that leaves it, \<open>None\<close> when the block
  never ends. Leaving the \<^verbatim>\<open>with\<close> statement closes the server.
\<close>

definition with_body :: "env \<Rightarrow> world \<Rightarrow> process \<Rightarrow> event list \<times> exn option" where
  "with_body env w p =
     (case body_raises w of
        None \<Rightarrow> (map Print banner @ serve_forever env p (requests w), None)
      | Some (i, e) \<Rightarrow>
          if i < length banner
          then (map Print (take i banner) @ [ServerClose], Some e)
          else (map Print banner @ serve_forever env p (requests w) @ [ServerClose], Some e))"

definition try_block :: "env \<Rightarrow> world \<Rightarrow> process \<Rightarrow> event list \<times> exn option" where
  "try_block env w p =
     (case bind_raises w of
        Some e \<Rightarrow> ([Bind [] PORT], Some e)
      | None \<Rightarrow> (case with_body env w p of (evs, r) \<Rightarrow> (Bind [] PORT # evs, r)))"

text \<open>
  \<^verbatim>\<open>
    def main():
        # Change to the directory where this script is located
        os.chdir(os.path.dirname(os.path.abspath(__file__)))

        Handler = MyHTTPRequestHandler

        try:
            with socketserver.TCPServer(("", PORT), Handler) as httpd:
                ...
        except KeyboardInterrupt:
            print("\n\n... Server stopped")
            sys.exit(0)
        except OSError as e:
            if e.errno == 98 or e.errno == 48:  # Address already in use
                print(f"\n... ERROR: Port {PORT} is already in use!")
                print(f"\nTry:")
                print(f"  1. Stop the other process on port {PORT}")
                print(f"  2. Change PORT in the script to another one (for example, 8080)")
                sys.exit(1)
            else:
                raise
  \<close>
  (the Russian of the messages is put into English here). \<open>script_directory\<close> is the
  argument of \<^verbatim>\<open>os.chdir\<close>, computed in the process as it starts; after the call the
  working directory is that directory, under the name \<open>resolved\<close> gives it.
\<close>

definition except_clauses :: "exn \<Rightarrow> event list \<times> outcome" where
  "except_clauses e =
     (case e of
        KeyboardInterrupt \<Rightarrow> ([Print msg_stopped], Exit 0)
      | OSError errno \<Rightarrow>
          if errno = Some 98 \<or> errno = Some 48
          then ([Print msg_port_in_use, Print msg_try, Print msg_stop_other,
                 Print msg_change_port], Exit 1)
          else ([], Raised e)
      | OtherException name \<Rightarrow> ([], Raised e))"

definition script_directory :: "world \<Rightarrow> string" where
  "script_directory w = dirname (abspath \<lparr>cwd = initial_cwd w\<rparr> (script_file w))"

definition main :: "env \<Rightarrow> world \<Rightarrow> event list \<times> outcome" where
  "main env w =
     (let p0 = \<lparr>cwd = initial_cwd w\<rparr>;
          d = script_directory w
      in case chdir_raises w of
           Some e \<Rightarrow> ([], Raised e)
         | None \<Rightarrow>
             (let p = p0\<lparr>cwd := resolved w d\<rparr>
              in case try_block env w p of
                   (evs, None) \<Rightarrow> (Chdir d # evs, Serving)
                 | (evs, Some e) \<Rightarrow>
                     (case except_clauses e of
                        (evs', out) \<Rightarrow> (Chdir d # evs @ evs', out))))"

text \<open>The exception that reaches the \<^verbatim>\<open>except\<close> clauses, if any.\<close>

definition raised_in_try :: "world \<Rightarrow> exn option" where
  "raised_in_try w =
     (case bind_raises w of
        Some e \<Rightarrow> Some e
      | None \<Rightarrow> map_option snd (body_raises w))"

text \<open>
  \<^verbatim>\<open>errno.EADDRINUSE\<close>, the code the operating system gives a bind to an address in
  use: 98 on Linux, 48 on macOS and the BSDs, 10048 (\<^verbatim>\<open>WSAEADDRINUSE\<close>) on Windows.
\<close>

datatype platform = Linux | Darwin | Windows

fun EADDRINUSE :: "platform \<Rightarrow> int" where
  "EADDRINUSE Linux = 98"
| "EADDRINUSE Darwin = 48"
| "EADDRINUSE Windows = 10048"

definition address_in_use :: "int option \<Rightarrow> bool" where
  "address_in_use errno = (errno \<in> set (map (\<lambda>pl. Some (EADDRINUSE pl)) [Linux, Darwin, Windows]))"

section \<open>Observations and examples\<close>

text \<open>The events of one kind in a run.\<close>

fun is_bind :: "event \<Rightarrow> bool" where
  "is_bind (Bind a n) = True"
| "is_bind ev = False"

fun is_chdir :: "event \<Rightarrow> bool" where
  "is_chdir (Chdir d) = True"
| "is_chdir ev = False"

fun is_respond :: "event \<Rightarrow> bool" where
  "is_respond (Respond r) = True"
| "is_respond ev = False"

text \<open>
  The name of a header line is what stands before its first colon; names are compared
  without regard to case.
\<close>

definition header_name :: "bytes \<Rightarrow> string" where
  "header_name line = lower (before_first CHR '':'' line)"

definition content_type_lines :: "bytes list \<Rightarrow> bytes list" where
  "content_type_lines ls = filter (\<lambda>l. header_name l = ''content-type'') ls"

text \<open>
  A header line and a status line as the library formats them, the reason phrase it
  takes from its table, and the three lines \<^verbatim>\<open>send_response\<close> buffers.
\<close>

definition header_line :: "string \<Rightarrow> string \<Rightarrow> bytes" where
  "header_line k v = k @ '': '' @ v @ CRLF"

definition status_line :: "int \<Rightarrow> string \<Rightarrow> bytes" where
  "status_line code msg = protocol_version @ '' '' @ str_int code @ '' '' @ msg @ CRLF"

definition short_message :: "env \<Rightarrow> int \<Rightarrow> string" where
  "short_message env code = (case responses env code of Some (short, long) \<Rightarrow> short | None \<Rightarrow> [])"

definition response_head :: "env \<Rightarrow> int \<Rightarrow> string \<Rightarrow> bytes list" where
  "response_head env code msg =
     [status_line code msg, header_line ''Server'' (version_string env),
      header_line ''Date'' (date_time_string env None)]"

text \<open>
  The handler after a response has gone out whose header lines, after those already
  buffered, are \<open>ls\<close> and whose body is \<open>body\<close>: for a request of version
  \<^verbatim>\<open>HTTP/0.9\<close> the body alone is written, otherwise the buffered lines, \<open>ls\<close>, the three
  fixed lines, the blank line and the body.
\<close>

definition respond_with :: "handler \<Rightarrow> bytes list \<Rightarrow> bytes \<Rightarrow> handler" where
  "respond_with h ls body =
     (if request_version h = ''HTTP/0.9'' then h\<lparr>wfile := wfile h @ body\<rparr>
      else h\<lparr>headers_buffer := Some [],
             wfile := wfile h @ concat (buffered h) @ concat ls @ concat fixed_headers @ CRLF @ body\<rparr>)"

text \<open>Message, explanation, header lines and body of an error response of \<^verbatim>\<open>send_error\<close>.\<close>

definition error_message :: "env \<Rightarrow> int \<Rightarrow> string option \<Rightarrow> string" where
  "error_message env code message =
     (case message of
        Some m \<Rightarrow> m
      | None \<Rightarrow> (case responses env code of Some sl \<Rightarrow> fst sl | None \<Rightarrow> ''???''))"

definition error_explain :: "env \<Rightarrow> int \<Rightarrow> string option \<Rightarrow> string" where
  "error_explain env code explain =
     (case explain of
        Some x \<Rightarrow> x
      | None \<Rightarrow> (case responses env code of Some sl \<Rightarrow> snd sl | None \<Rightarrow> ''???''))"

definition error_lines :: "env \<Rightarrow> int \<Rightarrow> string \<Rightarrow> string \<Rightarrow> bytes list" where
  "error_lines env code msg expl =
     response_head env code msg @ [header_line ''Connection'' ''close''] @
     (if code \<ge> 200 \<and> code \<notin> {204, 205, 304}
      then [header_line ''Content-Type'' error_content_type,
            header_line ''Content-Length'' (str_nat (length (error_page env code msg expl)))]
      else [])"

definition error_body :: "env \<Rightarrow> handler \<Rightarrow> int \<Rightarrow> string \<Rightarrow> string \<Rightarrow> bytes" where
  "error_body env h code msg expl =
     (if code \<ge> 200 \<and> code \<notin> {204, 205, 304} \<and> command h \<noteq> Some ''HEAD''
      then error_page env code msg expl else [])"


text \<open>
  \<open>is_response h h'\<close>: from \<open>h\<close>, one response has gone out, its first line a status
  line. \<open>head_sent\<close> is the same for \<^verbatim>\<open>send_head\<close>, whose file, if it returns one, is
  still to be copied.
\<close>

definition is_response :: "handler \<Rightarrow> handler \<Rightarrow> bool" where
  "is_response h h' =
     (\<exists>ls body c. h' = (respond_with h ls body)\<lparr>close_connection := c\<rparr> \<and> ls \<noteq> []
        \<and> startswith (hd ls) ''HTTP/1.0 '')"


text \<open>What \<^verbatim>\<open>os.path.join\<close> puts between a directory and a simple name.\<close>

definition root_sep :: "string \<Rightarrow> string" where
  "root_sep d = (if d = [] \<or> endswith d ''/'' then [] else ''/'')"

text \<open>
  \<open>words_of rq\<close> are the words of the request line. \<open>answered rq\<close>: the library writes
  a response, which it does for an over-long request line and for one that has a word.
  \<open>request_version_of rq\<close> is the value the handler's \<^verbatim>\<open>request_version\<close> has while the
  response is written: empty for an over-long line; the last word of a line of three or
  more words when that is a well-formed version below 2.0; otherwise the default
  \<^verbatim>\<open>HTTP/0.9\<close>.
\<close>

definition words_of :: "request \<Rightarrow> string list" where
  "words_of rq = split_ws (rstrip_crlf (raw_requestline rq))"


definition version_of_words :: "string list \<Rightarrow> string" where
  "version_of_words words =
     (if length words \<ge> 3
      then (case parse_version (last words) of
              None \<Rightarrow> ''HTTP/0.9''
            | Some (base_version_number, a, b) \<Rightarrow>
                if a > 2 \<or> (a = 2 \<and> b \<ge> 0) then ''HTTP/0.9'' else last words)
      else ''HTTP/0.9'')"


text \<open>
  \<open>at_version h0 v h\<close>: the handler \<open>h\<close> has written and buffered what \<open>h0\<close> had, serves
  the same directory, and its \<^verbatim>\<open>request_version\<close> is \<open>v\<close>.
\<close>

definition at_version :: "handler \<Rightarrow> string \<Rightarrow> handler \<Rightarrow> bool" where
  "at_version h0 v h =
     (wfile h = wfile h0 \<and> headers_buffer h = headers_buffer h0 \<and> directory h = directory h0
      \<and> request_version h = v)"

text \<open>The last component of a path, what \<^verbatim>\<open>posixpath.basename\<close> gives.\<close>

definition basename :: "string \<Rightarrow> string" where
  "basename p = rev (takeWhile (\<lambda>c. c \<noteq> CHR ''/'') (rev p))"

text \<open>Whether the run gets as far as \<^verbatim>\<open>serve_forever\<close>.\<close>

definition serving_reached :: "world \<Rightarrow> bool" where
  "serving_reached w =
     (bind_raises w = None \<and>
      (case body_raises w of None \<Rightarrow> True | Some (i, e) \<Rightarrow> length banner \<le> i))"

text \<open>
  A small machine for examples: the directory \<^verbatim>\<open>/srv/demo\<close> holds the one file
  \<^verbatim>\<open>stage8-vfs-demo.html\<close>, last modified at second 1000; request paths carry no
  percent escapes, so \<open>unquote\<close> leaves them as they are.
\<close>

definition demo_page :: bytes where
  "demo_page = ''<html>demo</html>''"

definition demo_not_found :: bytes where
  "demo_not_found = ''<h1>File not found</h1>''"

definition demo_env :: env where
  "demo_env =
     \<lparr>unquote = (\<lambda>s. s),
      isdir = (\<lambda>p. p = ''/srv/demo'' \<or> p = ''/srv/demo/''),
      isfile = (\<lambda>p. p = ''/srv/demo/stage8-vfs-demo.html''),
      listdir = (\<lambda>p. if p = ''/srv/demo'' \<or> p = ''/srv/demo/''
                     then Some [''stage8-vfs-demo.html''] else None),
      open_rb = (\<lambda>p. if p = ''/srv/demo/stage8-vfs-demo.html''
                     then Some (demo_page, 1000) else None),
      guess_type = (\<lambda>p. ''text/html''),
      version_string = ''SimpleHTTP/0.6 Python/3.12.3'',
      date_time_string = (\<lambda>t. case t of
                                 None \<Rightarrow> ''Thu, 01 Jan 1970 01:00:00 GMT''
                               | Some s \<Rightarrow> ''Thu, 01 Jan 1970 00:16:40 GMT''),
      responses = (\<lambda>c. if c = 200 then Some (''OK'', ''Request fulfilled, document follows'')
                       else if c = 304
                       then Some (''Not Modified'', ''Document has not changed since given time'')
                       else if c = 404
                       then Some (''Not Found'', ''Nothing matches the given URI'')
                       else None),
      error_page = (\<lambda>c m e. if m = ''File not found'' then demo_not_found
                              else ''<h1>'' @ m @ ''</h1>''),
      listing_page = (\<lambda>d p names. ''<ul>'' @ concat names @ ''</ul>''),
      fs_encoding = ''utf-8'',
      url_path = (\<lambda>p. before_first CHR ''#'' (before_first CHR ''?'' p)),
      url_with_slash = (\<lambda>p. p @ ''/''),
      parsedate_to_datetime = (\<lambda>s. if s = ''Thu, 01 Jan 1970 00:16:40 GMT''
                                   then Some (1000, TzUTC) else None),
      repr = (\<lambda>s. [CHR 0x27] @ s @ [CHR 0x27])\<rparr>"

definition get_demo :: request where
  "get_demo =
     \<lparr>raw_requestline = ''GET /stage8-vfs-demo.html HTTP/1.1'' @ CRLF,
      header_fields = Inr [(''Host'', ''localhost:8000'')]\<rparr>"

definition get_missing :: request where
  "get_missing = get_demo\<lparr>raw_requestline := ''GET /missing.html HTTP/1.1'' @ CRLF\<rparr>"





definition demo_world :: world where
  "demo_world =
     \<lparr>initial_cwd = ''/home/user'', script_file = ''/srv/demo/start-server.py'',
      chdir_raises = None, resolved = (\<lambda>d. d), bind_raises = None, body_raises = None,
      requests = [get_demo, get_missing]\<rparr>"

section \<open>Start-up, shutdown and failure\<close>

subsection \<open>Facts about the run\<close>

lemma char_of_digits: "char_of (56::nat) = CHR ''8''" "char_of (48::nat) = CHR ''0''"
  by code_simp+

lemma str_int_PORT: "str_int PORT = ''8000''"
  by (simp add: PORT_def str_int_def str_nat.simps char_of_digits)

lemma length_banner: "length banner = 13"
  by (simp add: banner_def)

lemma main_raised:
  "chdir_raises w = None \<Longrightarrow>
   try_block env w \<lparr>cwd = resolved w (script_directory w)\<rparr> = (evs, Some e) \<Longrightarrow>
   main env w =
     (Chdir (script_directory w) # evs @ fst (except_clauses e), snd (except_clauses e))"
  by (simp add: main_def Let_def split: prod.splits)

lemma try_block_bind_raises:
  "bind_raises w = Some e \<Longrightarrow> try_block env w p = ([Bind [] PORT], Some e)"
  by (simp add: try_block_def)

lemma try_block_raises: "snd (try_block env w p) = raised_in_try w"
  by (auto simp: try_block_def raised_in_try_def with_body_def split: option.splits prod.splits)

lemma try_block_cases:
  assumes "raised_in_try w = Some e"
  obtains evs where "try_block env w p = (evs, Some e)"
  using try_block_raises [of env w p] assms by (cases "try_block env w p") auto

text \<open>No line of the banner is the port-conflict diagnostic: that one starts with a newline.\<close>

lemma rule70_Cons: "rule70 = 61 # replicate 69 61"
  unfolding rule70_def by (simp add: replicate_Suc [symmetric] del: replicate_Suc)

lemma banner_first: "b \<in> set banner \<Longrightarrow> take 1 b \<noteq> [10]"
  by (auto simp: banner_def rule70_Cons msg_started_def msg_address_def msg_open_def
      msg_stage8_def msg_stage9_def msg_ctrl_c_def asc_def)

lemma port_in_use_first: "take 1 msg_port_in_use = [10]"
  by (simp add: msg_port_in_use_def)

lemma not_in_banner: "msg_port_in_use \<notin> set banner"
  using banner_first port_in_use_first by blast

lemma not_in_with_body: "Print msg_port_in_use \<notin> set (fst (with_body env w p))"
proof -
  have "Print msg_port_in_use \<notin> set (map Print (take i banner))" for i
    using not_in_banner by (auto dest: in_set_takeD)
  moreover have "Print msg_port_in_use \<notin> set (map Print banner)"
    using not_in_banner by auto
  ultimately show ?thesis
    by (auto simp: with_body_def serve_forever_def split: option.splits prod.splits if_splits)
qed

lemma not_in_try_block: "Print msg_port_in_use \<notin> set (fst (try_block env w p))"
  using not_in_with_body [of env w p]
  by (auto simp: try_block_def split: option.splits prod.splits)

text \<open>The example machine: the script lies in \<^verbatim>\<open>/srv/demo\<close>.\<close>

lemma normpath_demo: "normpath ''/srv/demo/start-server.py'' = ''/srv/demo/start-server.py''"
  by (simp add: normpath_def initial_slashes_def startswith_def normpath_step_def)

lemma script_directory_demo [simp]:
  "script_directory (demo_world\<lparr>bind_raises := b, body_raises := r\<rparr>) = ''/srv/demo''"
  by (simp add: script_directory_def demo_world_def abspath_def startswith_def normpath_demo
      dirname_def)

lemma script_directory_relative:
  "script_directory (demo_world\<lparr>initial_cwd := ''/srv/demo'', script_file := ''start-server.py''\<rparr>)
     = ''/srv/demo''"
  by (simp add: script_directory_def abspath_def startswith_def join_def endswith_def
      normpath_def initial_slashes_def normpath_step_def dirname_def)

lemma demo_world_simps [simp]:
  "chdir_raises (demo_world\<lparr>bind_raises := b, body_raises := r\<rparr>) = None"
  "requests (demo_world\<lparr>bind_raises := b, body_raises := r\<rparr>) = [get_demo, get_missing]"
  "resolved demo_world d = d"
  by (simp_all add: demo_world_def)

subsection \<open>Port conflict\<close>

text \<open>
  Where the constructor's \<^verbatim>\<open>OSError\<close> has \<^verbatim>\<open>errno\<close> 98 or 48, address in use on Linux and on
  macOS and the BSDs, the program changes directory, tries to bind once, prints the
  diagnostic, which names the port, then the line "Try:" and the two suggestions, and
  exits with status 1.
\<close>

lemma port_conflict_98_or_48:
  assumes "chdir_raises w = None"
    and "bind_raises w = Some (OSError (Some n))"
    and "n = 98 \<or> n = 48"
  shows "main env w =
           ([Chdir (script_directory w), Bind [] PORT, Print msg_port_in_use, Print msg_try,
             Print msg_stop_other, Print msg_change_port], Exit 1)
         \<and> length (filter is_bind (fst (main env w))) = 1
         \<and> (\<exists>a b. msg_port_in_use = a @ asc ''8000'' @ b)
         \<and> PORT = 8000"
proof -
  have m: "main env w =
           ([Chdir (script_directory w), Bind [] PORT, Print msg_port_in_use, Print msg_try,
             Print msg_stop_other, Print msg_change_port], Exit 1)"
    using assms by (auto simp: main_raised [OF _ try_block_bind_raises] except_clauses_def)
  have "msg_port_in_use =
          ([10, 10060] @ asc '' '' @ [1054, 1064, 1048, 1041, 1050, 1040] @ asc '': '' @
           [1055, 1086, 1088, 1090] @ asc '' '') @ asc ''8000'' @
          (asc '' '' @ [1091, 1078, 1077] @ asc '' '' @
           [1080, 1089, 1087, 1086, 1083, 1100, 1079, 1091, 1077, 1090, 1089, 1103] @ asc ''!'')"
    by (simp add: msg_port_in_use_def str_int_PORT)
  then have "\<exists>a b. msg_port_in_use = a @ asc ''8000'' @ b"
    by blast
  then show ?thesis
    by (simp add: m PORT_def)
qed

text \<open>
  C3. The claim: if at start-up the port is already bound by another process (address in
  use), the program prints a diagnostic naming the port and two remediation suggestions
  and ends with a non-zero exit status, without retrying.

  The \<^verbatim>\<open>except OSError\<close> clause is written for that condition, as its comment
  \<^verbatim>\<open># Address already in use\<close> says, but it knows the condition by the numbers 98 and 48
  only. On Windows a bind to a busy address fails with error 10048, which is
  \<^verbatim>\<open>errno.EADDRINUSE\<close> there. In every world whose \<^verbatim>\<open>os.chdir\<close> succeeds and whose
  constructor raises that \<^verbatim>\<open>OSError\<close>, the run is the change of directory, to whatever
  directory it is, and the one attempt to bind; nothing is printed, and the exception
  leaves \<^verbatim>\<open>main\<close> where the claim has an exit with status 1.
\<close>

theorem port_conflict_on_windows:
  "address_in_use (Some (EADDRINUSE Windows)) \<and>
   (\<exists>d. main env
          (w\<lparr>chdir_raises := None,
             bind_raises := Some (OSError (Some (EADDRINUSE Windows)))\<rparr>)
        = ([Chdir d, Bind [] PORT], Raised (OSError (Some 10048))))"
  by (simp add: address_in_use_def main_raised [OF _ try_block_bind_raises] except_clauses_def)

subsection \<open>Interrupt\<close>

text \<open>
  C4. On a manual interrupt while serving, the program prints a short shutdown message
  and ends with exit status 0. A \<^verbatim>\<open>KeyboardInterrupt\<close> raised in \<^verbatim>\<open>serve_forever\<close>, after
  any requests served, closes the server on the way out of the \<^verbatim>\<open>with\<close> statement;
  then the one shutdown message is printed and the program exits with status 0.
\<close>

theorem interrupt_while_serving:
  assumes "chdir_raises w = None"
    and "bind_raises w = None"
    and "body_raises w = Some (i, KeyboardInterrupt)"
    and "length banner \<le> i"
  shows "main env w =
           (Chdir (script_directory w) # Bind [] PORT # map Print banner @
            serve_forever env \<lparr>cwd = resolved w (script_directory w)\<rparr> (requests w) @
            [ServerClose, Print msg_stopped], Exit 0)"
  using assms by (simp add: main_def try_block_def with_body_def except_clauses_def Let_def)

theorem interrupt_while_serving_witness:
  "main demo_env (demo_world\<lparr>bind_raises := None, body_raises := Some (13, KeyboardInterrupt)\<rparr>) =
     (Chdir ''/srv/demo'' # Bind [] 8000 # map Print banner @
      [Respond (response demo_env ''/srv/demo'' get_demo),
       Respond (response demo_env ''/srv/demo'' get_missing),
       ServerClose, Print msg_stopped], Exit 0)"
  using interrupt_while_serving
    [of "demo_world\<lparr>bind_raises := None, body_raises := Some (13, KeyboardInterrupt)\<rparr>" 13
        demo_env]
  by (simp add: length_banner serve_forever_def PORT_def)

text \<open>
  C10. A \<^verbatim>\<open>KeyboardInterrupt\<close> raised at any point inside the \<^verbatim>\<open>try\<close> block, in the
  constructor, in any of the thirteen \<^verbatim>\<open>print\<close> calls after the socket is bound, or in
  \<^verbatim>\<open>serve_forever\<close>, makes the program print the shutdown message last and exit with
  status 0.
\<close>

theorem interrupt_anywhere_in_try:
  assumes "chdir_raises w = None"
    and "raised_in_try w = Some KeyboardInterrupt"
  shows "snd (main env w) = Exit 0 \<and> last (fst (main env w)) = Print msg_stopped"
proof -
  obtain evs where "try_block env w \<lparr>cwd = resolved w (script_directory w)\<rparr> = (evs, Some KeyboardInterrupt)"
    using assms(2) by (rule try_block_cases)
  then show ?thesis
    by (simp add: main_raised [OF assms(1)] except_clauses_def)
qed

theorem interrupt_anywhere_in_try_witness:
  "raised_in_try (demo_world\<lparr>bind_raises := None, body_raises := Some (5, KeyboardInterrupt)\<rparr>)
     = Some KeyboardInterrupt
   \<and> main demo_env (demo_world\<lparr>bind_raises := None, body_raises := Some (5, KeyboardInterrupt)\<rparr>)
     = ([Chdir ''/srv/demo'', Bind [] 8000, Print rule70, Print msg_started, Print rule70,
         Print [], Print msg_address, ServerClose, Print msg_stopped], Exit 0)
   \<and> last [Chdir ''/srv/demo'', Bind [] 8000, Print rule70, Print msg_started, Print rule70,
         Print [], Print msg_address, ServerClose, Print msg_stopped] = Print msg_stopped"
  using interrupt_anywhere_in_try
    [of "demo_world\<lparr>bind_raises := None, body_raises := Some (5, KeyboardInterrupt)\<rparr>" demo_env]
  by (simp add: raised_in_try_def main_def try_block_def with_body_def except_clauses_def
      Let_def banner_def PORT_def)

subsection \<open>Other operating-system errors\<close>

text \<open>
  C5. If listener setup fails for an operating-system reason other than address in use,
  the failure is propagated to the caller, not swallowed and not turned into the
  port-conflict diagnostic. For an \<^verbatim>\<open>OSError\<close> of the constructor whose \<^verbatim>\<open>errno\<close> is no
  platform's address-in-use code (or is \<^verbatim>\<open>None\<close>), the same exception leaves \<^verbatim>\<open>main\<close> and
  nothing is printed.
\<close>

theorem other_oserror_propagates:
  assumes "chdir_raises w = None"
    and "bind_raises w = Some (OSError errno)"
    and "\<not> address_in_use errno"
  shows "main env w = ([Chdir (script_directory w), Bind [] PORT], Raised (OSError errno))"
  using assms
  by (auto simp: main_raised [OF _ try_block_bind_raises] except_clauses_def address_in_use_def)

theorem other_oserror_propagates_witness:
  "\<not> address_in_use (Some 13) \<and>
   main demo_env (demo_world\<lparr>bind_raises := Some (OSError (Some 13)), body_raises := None\<rparr>) =
     ([Chdir ''/srv/demo'', Bind [] 8000], Raised (OSError (Some 13)))"
  using other_oserror_propagates
    [of "demo_world\<lparr>bind_raises := Some (OSError (Some 13)), body_raises := None\<rparr>" "Some 13"
        demo_env]
  by (simp add: address_in_use_def PORT_def)

text \<open>
  C9. The port-conflict branch is taken if and only if the \<^verbatim>\<open>OSError\<close> caught has
  \<^verbatim>\<open>errno\<close> 98 or 48: then, and only then, the diagnostic is printed and the exit status
  is 1. With any other \<^verbatim>\<open>errno\<close>, the Windows address-in-use code 10048 among them, the
  exception is raised again unchanged.
\<close>

theorem port_conflict_iff_errno_98_or_48:
  assumes "chdir_raises w = None"
    and "raised_in_try w = Some (OSError errno)"
  shows "snd (main env w) =
           (if errno = Some 98 \<or> errno = Some 48 then Exit 1 else Raised (OSError errno))
         \<and> (Print msg_port_in_use \<in> set (fst (main env w))) = (errno = Some 98 \<or> errno = Some 48)
         \<and> (errno = Some (EADDRINUSE Windows) \<longrightarrow> snd (main env w) = Raised (OSError errno))"
proof -
  obtain evs where t: "try_block env w \<lparr>cwd = resolved w (script_directory w)\<rparr> = (evs, Some (OSError errno))"
    using assms(2) by (rule try_block_cases)
  have n: "Print msg_port_in_use \<notin> set evs"
    using not_in_try_block [of env w "\<lparr>cwd = resolved w (script_directory w)\<rparr>"] t by simp
  show ?thesis
    using n by (auto simp: main_raised [OF assms(1) t] except_clauses_def)
qed

theorem port_conflict_iff_errno_98_or_48_witness:
  "raised_in_try (demo_world\<lparr>bind_raises := Some (OSError (Some 10048)), body_raises := None\<rparr>)
     = Some (OSError (Some 10048))
   \<and> snd (main demo_env
        (demo_world\<lparr>bind_raises := Some (OSError (Some 10048)), body_raises := None\<rparr>))
     = Raised (OSError (Some 10048))
   \<and> Print msg_port_in_use \<notin> set (fst (main demo_env
        (demo_world\<lparr>bind_raises := Some (OSError (Some 10048)), body_raises := None\<rparr>)))"
  using port_conflict_iff_errno_98_or_48
    [of "demo_world\<lparr>bind_raises := Some (OSError (Some 10048)), body_raises := None\<rparr>"
        "Some 10048" demo_env]
  by (simp add: raised_in_try_def)

section \<open>The response headers\<close>

subsection \<open>What the library methods do to the handler\<close>

lemma length_lower [simp]: "length (lower s) = length s"
  by (simp add: lower_def)

lemma lower_neq_length: "length s \<noteq> length t \<Longrightarrow> lower s \<noteq> t"
  by (metis length_lower)


lemma send_header_plain:
  "lower keyword \<noteq> ''connection'' \<Longrightarrow>
   send_header keyword val h =
     (if request_version h \<noteq> ''HTTP/0.9''
      then h\<lparr>headers_buffer := Some (buffered h @ [keyword @ '': '' @ val @ CRLF])\<rparr> else h)"
  by (simp add: send_header_def)

lemma send_header_line:
  "lower k \<noteq> ''connection'' \<Longrightarrow>
   send_header k v h =
     (if request_version h \<noteq> ''HTTP/0.9''
      then h\<lparr>headers_buffer := Some (buffered h @ [header_line k v])\<rparr> else h)"
  by (simp add: send_header_plain header_line_def)

lemma lower_connection: "lower ''Connection'' = ''connection''" "lower ''close'' = ''close''"
  by code_simp+

lemma send_header_connection_close:
  "send_header ''Connection'' ''close'' h =
     (if request_version h \<noteq> ''HTTP/0.9''
      then h\<lparr>headers_buffer := Some (buffered h @ [header_line ''Connection'' ''close'']),
             close_connection := True\<rparr>
      else h\<lparr>close_connection := True\<rparr>)"
  by (simp add: send_header_def lower_connection header_line_def)

lemma buffered_update [simp]: "buffered (h\<lparr>headers_buffer := Some b\<rparr>) = b"
  by (simp add: buffered_def)

lemma buffered_other [simp]: "buffered (h\<lparr>close_connection := c\<rparr>) = buffered h"
  "buffered (h\<lparr>wfile := w\<rparr>) = buffered h"
  by (simp_all add: buffered_def)

lemma send_response_only_eq:
  "send_response_only env code message h =
     (if request_version h \<noteq> ''HTTP/0.9''
      then h\<lparr>headers_buffer := Some (buffered h @
             [status_line code (case message of Some m \<Rightarrow> m | None \<Rightarrow> short_message env code)])\<rparr>
      else h)"
  by (simp add: send_response_only_def status_line_def short_message_def Let_def split: option.splits)

lemma send_response_eq:
  "send_response env code message h =
     (if request_version h \<noteq> ''HTTP/0.9''
      then h\<lparr>headers_buffer := Some (buffered h @
             response_head env code (case message of Some m \<Rightarrow> m | None \<Rightarrow> short_message env code))\<rparr>
      else h)"
  by (simp add: send_response_def send_response_only_eq send_header_line lower_neq_length
      response_head_def buffered_def Let_def)

lemma end_headers_eq:
  "end_headers h =
     Inr (if request_version h = ''HTTP/0.9'' then h
          else h\<lparr>headers_buffer := Some [],
                 wfile := wfile h @ concat (buffered h) @ concat fixed_headers @ CRLF\<rparr>)"
  by (simp add: end_headers_def Let_def send_header_plain lower_neq_length base_end_headers_def
        flush_headers_def buffered_def fixed_headers_def split: option.splits)

lemma base_end_headers_eq:
  "base_end_headers (h\<lparr>headers_buffer := Some (buffered h)\<rparr>) =
     Inr (if request_version h = ''HTTP/0.9'' then h\<lparr>headers_buffer := Some (buffered h)\<rparr>
          else h\<lparr>headers_buffer := Some [],
                 wfile := wfile h @ concat (buffered h) @ CRLF\<rparr>)"
  by (simp add: base_end_headers_def flush_headers_def)

lemma header_names_fixed: "map header_name fixed_headers = [''access-control-allow-origin'', ''access-control-allow-methods'', ''cache-control'']"
  apply (simp add: fixed_headers_def header_name_def before_first_def CRLF_def)
  by code_simp

lemma content_type_lines_fixed: "content_type_lines (ls @ fixed_headers) = content_type_lines ls"
proof -
  have "filter (\<lambda>l. header_name l = ''content-type'') fixed_headers = []"
    using header_names_fixed by (auto simp: filter_empty_conv fixed_headers_def)
  then show ?thesis by (simp add: content_type_lines_def)
qed


lemma end_headers_closing:
  "end_headers (if request_version h \<noteq> ''HTTP/0.9''
                then h\<lparr>headers_buffer := Some (buffered h @ ls), close_connection := True\<rparr>
                else h\<lparr>close_connection := True\<rparr>)
   = Inr ((respond_with h ls [])\<lparr>close_connection := True\<rparr>)"
  by (simp add: end_headers_eq respond_with_def)

subsection \<open>Every response routine ends in the override\<close>

lemma respond_with_fields [simp]:
  "command (respond_with h ls body) = command h"
  "request_version (respond_with h ls body) = request_version h"
  by (simp_all add: respond_with_def)


lemma respond_with_add_body:
  "(respond_with h ls [])\<lparr>close_connection := c,
      wfile := wfile (respond_with h ls []) @ body\<rparr> = (respond_with h ls body)\<lparr>close_connection := c\<rparr>"
  by (simp add: respond_with_def)


lemma respond_with_same_close: "h' = respond_with h ls body \<Longrightarrow> h' = (respond_with h ls body)\<lparr>close_connection := close_connection h'\<rparr>"
  by simp

lemma error_chain:
  "send_header ''Connection'' ''close'' (send_response env code (Some msg) h) =
     (if request_version h \<noteq> ''HTTP/0.9''
      then h\<lparr>headers_buffer :=
               Some (buffered h @ response_head env code msg @ [header_line ''Connection'' ''close'']),
             close_connection := True\<rparr>
      else h\<lparr>close_connection := True\<rparr>)"
  by (simp add: send_response_eq send_header_connection_close)

lemma error_chain_body:
  "send_header ''Content-Length'' x (send_header ''Content-Type'' y
     (send_header ''Connection'' ''close'' (send_response env code (Some msg) h))) =
     (if request_version h \<noteq> ''HTTP/0.9''
      then h\<lparr>headers_buffer :=
               Some (buffered h @ response_head env code msg @
                     [header_line ''Connection'' ''close'', header_line ''Content-Type'' y,
                      header_line ''Content-Length'' x]),
             close_connection := True\<rparr>
      else h\<lparr>close_connection := True\<rparr>)"
  by (simp add: error_chain send_header_line lower_neq_length)

lemma send_error_eq:
  "send_error env code message explain h =
     Inr ((respond_with h
             (error_lines env code (error_message env code message)
                (error_explain env code explain))
             (error_body env h code (error_message env code message)
                (error_explain env code explain)))
          \<lparr>close_connection := True\<rparr>)"
proof -
  define msg where "msg = error_message env code message"
  define expl where "expl = error_explain env code explain"
  obtain shortmsg longmsg where
    sl: "(case responses env code of Some sl \<Rightarrow> sl | None \<Rightarrow> (''???'', ''???'')) = (shortmsg, longmsg)"
    by fastforce
  have m: "(case message of None \<Rightarrow> shortmsg | Some m \<Rightarrow> m) = msg"
    using sl by (auto simp: msg_def error_message_def split: option.splits)
  have x: "(case explain of None \<Rightarrow> longmsg | Some x \<Rightarrow> x) = expl"
    using sl by (auto simp: expl_def error_explain_def split: option.splits)
  define c where "c = (code \<ge> 200 \<and> code \<notin> {204, 205, 304})"
  have el: "error_lines env code msg expl =
     response_head env code msg @ [header_line ''Connection'' ''close''] @
     (if c then [header_line ''Content-Type'' error_content_type,
            header_line ''Content-Length'' (str_nat (length (error_page env code msg expl)))]
      else [])"
    by (simp add: error_lines_def c_def)
  have eb: "error_body env h code msg expl =
     (if c \<and> command h \<noteq> Some ''HEAD'' then error_page env code msg expl else [])"
    by (simp add: error_body_def c_def)
  show ?thesis
  proof (cases c)
    case True
    then have "send_error env code message explain h =
        (case end_headers (send_header ''Content-Length'' (str_nat (length (error_page env code msg expl)))
                (send_header ''Content-Type'' error_content_type
                (send_header ''Connection'' ''close'' (send_response env code (Some msg) h)))) of
           Inl e \<Rightarrow> Inl e
         | Inr h4 \<Rightarrow> Inr (if command h4 \<noteq> Some ''HEAD'' \<and> error_page env code msg expl \<noteq> []
                       then h4\<lparr>wfile := wfile h4 @ error_page env code msg expl\<rparr> else h4))"
      unfolding send_error_def sl prod.case Let_def m x c_def [symmetric]
      by (simp split: sum.splits)
    also have "\<dots> = Inr ((respond_with h (error_lines env code msg expl) (error_body env h code msg expl))
          \<lparr>close_connection := True\<rparr>)"
      unfolding error_chain_body end_headers_closing el eb
      using True by (simp add: respond_with_add_body respond_with_def)
    finally show ?thesis by (simp add: msg_def expl_def)
  next
    case False
    then have "send_error env code message explain h =
        (case end_headers (send_header ''Connection'' ''close'' (send_response env code (Some msg) h)) of
           Inl e \<Rightarrow> Inl e
         | Inr h4 \<Rightarrow> Inr h4)"
      unfolding send_error_def sl prod.case Let_def m x c_def [symmetric]
      by (simp split: sum.splits)
    also have "\<dots> = Inr ((respond_with h (error_lines env code msg expl) (error_body env h code msg expl))
          \<lparr>close_connection := True\<rparr>)"
      unfolding error_chain end_headers_closing el eb
      using False by simp
    finally show ?thesis by (simp add: msg_def expl_def)
  qed
qed






lemma status_line_start: "startswith (status_line code msg) ''HTTP/1.0 ''"
  by (simp add: status_line_def protocol_version_def startswith_def)

lemma response_head_start [simp]:
  "response_head env code msg @ ls \<noteq> []" "startswith (hd (response_head env code msg @ ls)) ''HTTP/1.0 ''"
  "response_head env code msg \<noteq> []" "startswith (hd (response_head env code msg)) ''HTTP/1.0 ''"
  by (simp_all add: response_head_def status_line_start)

lemma is_responseI:
  "ls \<noteq> [] \<Longrightarrow> startswith (hd ls) ''HTTP/1.0 '' \<Longrightarrow> is_response h (respond_with h ls body)"
  unfolding is_response_def
  by (metis respond_with_same_close)

lemma is_responseI_close:
  "ls \<noteq> [] \<Longrightarrow> startswith (hd ls) ''HTTP/1.0 '' \<Longrightarrow> is_response h ((respond_with h ls body)\<lparr>close_connection := c\<rparr>)"
  unfolding is_response_def by blast

lemma error_lines_start:
  "error_lines env code msg expl \<noteq> []"
  "startswith (hd (error_lines env code msg expl)) ''HTTP/1.0 ''"
  by (simp_all add: error_lines_def)

lemma send_error_is_response:
  "\<exists>h'. send_error env code message explain h = Inr h' \<and> is_response h h'"
  unfolding send_error_eq
  by (simp add: is_responseI_close error_lines_start)














lemma init_handler_simps [simp]:
  "request_version (init_handler d) = []"
  "command (init_handler d) = None"
  "headers (init_handler d) = []"
  "directory (init_handler d) = d"
  "wfile (init_handler d) = []"
  "headers_buffer (init_handler d) = None"
  "buffered (init_handler d) = []"
  by (simp_all add: init_handler_def buffered_def)

subsection \<open>Reading the request\<close>

text \<open>
  Each step of \<^verbatim>\<open>parse_request\<close> either ends in an error response, written at the request
  version reached so far, or goes on with nothing written.
\<close>

lemma send_error_at:
  assumes "at_version h0 v h"
  shows "\<exists>h' hx. send_error env code message explain h = Inr h' \<and> is_response hx h'
           \<and> at_version h0 v hx"
  using send_error_is_response [of env code message explain h] assms by blast

lemma version_step_shape:
  assumes "at_version h0 ''HTTP/0.9'' h"
  shows "case version_step env h words of
           Inl r \<Rightarrow> version_of_words words = ''HTTP/0.9''
                    \<and> (\<exists>h' hx. r = Inr h' \<and> is_response hx h' \<and> at_version h0 ''HTTP/0.9'' hx)
         | Inr h1 \<Rightarrow> at_version h0 (version_of_words words) h1"
proof (cases "length words \<ge> 3")
  case False
  then show ?thesis
    using assms by (simp add: version_step_def version_of_words_def)
next
  case l: True
  show ?thesis
  proof (cases "parse_version (last words)")
    case None
    then show ?thesis
      using l send_error_at [OF assms]
      by (simp add: version_step_def version_of_words_def)
  next
    case (Some t)
    obtain base a b where t: "t = (base, a, b)"
      by (cases t) auto
    show ?thesis
    proof (cases "a > 2 \<or> (a = 2 \<and> b \<ge> 0)")
      case True
      then show ?thesis
        using l Some t send_error_at [OF assms]
        by (simp add: version_step_def version_of_words_def)
    next
      case False
      then show ?thesis
        using l Some t assms
        by (simp add: version_step_def version_of_words_def at_version_def)
    qed
  qed
qed

lemma at_version_close: "at_version h0 v h \<Longrightarrow> at_version h0 v (h\<lparr>close_connection := c\<rparr>)"
  by (simp add: at_version_def)

lemma command_step_shape:
  assumes "at_version h0 v h"
  shows "case command_step env h requestline words of
           Inl r \<Rightarrow> (\<exists>h' hx. r = Inr h' \<and> is_response hx h' \<and> at_version h0 v hx)
         | Inr h2 \<Rightarrow> at_version h0 v h2 \<and> command h2 \<noteq> None"
proof -
  have a: "at_version h0 v (h\<lparr>close_connection := True\<rparr>)"
    using assms by (rule at_version_close)
  consider (two) cmd p where "words = [cmd, p]" | (three) cmd p version where "words = [cmd, p, version]"
    | (other) "length words \<noteq> 2" "length words \<noteq> 3"
    by (cases words rule: list.exhaust; simp)
       (metis length_0_conv length_Suc_conv numeral_2_eq_2 numeral_3_eq_3)
  then show ?thesis
  proof cases
    case two
    then show ?thesis
      using send_error_at [OF a] assms
      by (simp add: command_step_def at_version_def)
  next
    case three
    then show ?thesis
      using assms by (simp add: command_step_def at_version_def)
  next
    case other
    then have "command_step env h requestline words =
        Inl (send_error env 400
               (Some (''Bad request syntax ('' @ repr env requestline @ '')'')) None h)"
      by (auto simp: command_step_def split: list.splits)
    then show ?thesis
      using send_error_at [OF assms] by simp
  qed
qed

lemma headers_step_shape:
  assumes "at_version h0 v h" and "command h \<noteq> None"
  shows "case headers_step env h rq of
           Inl r \<Rightarrow> (\<exists>h' hx. r = Inr h' \<and> is_response hx h' \<and> at_version h0 v hx)
         | Inr h3 \<Rightarrow> at_version h0 v h3 \<and> command h3 \<noteq> None"
proof (cases "header_fields rq")
  case (Inl e)
  then show ?thesis
    using send_error_at [OF assms(1)] by (cases e) (simp_all add: headers_step_def)
next
  case (Inr hs)
  then show ?thesis
    using assms by (simp add: headers_step_def at_version_def Let_def)
qed

lemma parse_request_no_words:
  "words_of rq = [] \<Longrightarrow>
   parse_request env rq h0 =
     Inr (False, h0\<lparr>command := None, request_version := default_request_version,
                     close_connection := True\<rparr>)"
  by (simp add: parse_request_def words_of_def Let_def)

lemma parse_request_shape:
  assumes "words_of rq \<noteq> []"
  shows "(\<exists>h1. parse_request env rq h0 = Inr (True, h1)
            \<and> at_version h0 (version_of_words (words_of rq)) h1 \<and> command h1 \<noteq> None)
       \<or> (\<exists>h1 hx. parse_request env rq h0 = Inr (False, h1) \<and> is_response hx h1
            \<and> at_version h0 (version_of_words (words_of rq)) hx)"
proof -
  define h where "h = h0\<lparr>command := None, request_version := default_request_version,
                         close_connection := True\<rparr>"
  define requestline where "requestline = rstrip_crlf (raw_requestline rq)"
  define v where "v = version_of_words (words_of rq)"
  have w: "split_ws requestline = words_of rq"
    by (simp add: requestline_def words_of_def)
  have a: "at_version h0 ''HTTP/0.9'' h"
    by (simp add: h_def at_version_def default_request_version_def)
  have p: "parse_request env rq h0 =
      (case version_step env h (words_of rq) of
         Inl r \<Rightarrow> failed r
       | Inr h1 \<Rightarrow>
           (case command_step env h1 requestline (words_of rq) of
              Inl r \<Rightarrow> failed r
            | Inr h2 \<Rightarrow>
                (case headers_step env h2 rq of
                   Inl r \<Rightarrow> failed r
                 | Inr h3 \<Rightarrow> Inr (True, h3))))"
    using assms unfolding parse_request_def Let_def h_def [symmetric] requestline_def [symmetric] w
    by simp
  show ?thesis
  proof (cases "version_step env h (words_of rq)")
    case (Inl r)
    then show ?thesis
      using version_step_shape [OF a, where env = env and words = "words_of rq"]
      by (auto simp: p failed_def)
  next
    case 1: (Inr h1)
    then have a1: "at_version h0 v h1"
      using version_step_shape [OF a, where env = env and words = "words_of rq"] by (simp add: v_def)
    show ?thesis
    proof (cases "command_step env h1 requestline (words_of rq)")
      case (Inl r)
      then show ?thesis
        using command_step_shape [OF a1, where env = env and requestline = requestline and words = "words_of rq"] 1
        by (auto simp: p failed_def v_def)
    next
      case 2: (Inr h2)
      then have a2: "at_version h0 v h2" "command h2 \<noteq> None"
        using command_step_shape [OF a1, where env = env and requestline = requestline and words = "words_of rq"] by simp_all
      show ?thesis
      proof (cases "headers_step env h2 rq")
        case (Inl r)
        then show ?thesis
          using headers_step_shape [OF a2, where env = env and rq = rq] 1 2
          by (auto simp: p failed_def v_def)
      next
        case (Inr h3)
        then show ?thesis
          using headers_step_shape [OF a2, where env = env and rq = rq] 1 2
          by (auto simp: p v_def)
      qed
    qed
  qed
qed




subsection \<open>A request that parses\<close>







subsection \<open>Path resolution\<close>

lemma split_on_nonempty: "split_on c s \<noteq> []"
  by (induction s) (auto split: list.splits)

lemma split_on_no_sep: "w \<in> set (split_on c s) \<Longrightarrow> c \<notin> set w"
proof (induction s arbitrary: w)
  case Nil
  then show ?case by simp
next
  case (Cons x xs)
  show ?case
  proof (cases "x = c")
    case True
    with Cons show ?thesis by auto
  next
    case False
    obtain v vs where s: "split_on c xs = v # vs"
      using split_on_nonempty [of c xs] by (cases "split_on c xs") auto
    with False Cons.prems have "w = x # v \<or> w \<in> set vs" by simp
    then show ?thesis
      using Cons.IH [of v] Cons.IH [of w] s False by auto
  qed
qed

lemma path_words_simple:
  assumes "w \<in> set (path_words env p)"
  shows "w \<noteq> [] \<and> CHR ''/'' \<notin> set w \<and> w \<noteq> ''.'' \<and> w \<noteq> ''..''"
  using assms split_on_no_sep [of w "CHR ''/''"]
  by (auto simp: path_words_def Let_def simple_name_def)

lemma endswith_slash: "endswith s ''/'' \<longleftrightarrow> s \<noteq> [] \<and> last s = CHR ''/''"
proof (cases s rule: rev_cases)
  case Nil
  then show ?thesis by (simp add: endswith_def)
next
  case (snoc ys y)
  then show ?thesis by (auto simp: endswith_def)
qed

lemma join_simple:
  assumes "w \<noteq> []" and "CHR ''/'' \<notin> set w"
  shows "join a w = a @ (if a = [] \<or> endswith a ''/'' then [] else ''/'') @ w"
proof -
  have "\<not> startswith w ''/''"
    using assms by (cases w) (auto simp: startswith_def)
  then show ?thesis by (simp add: join_def)
qed

lemma join_with_snoc: "ws \<noteq> [] \<Longrightarrow> join_with sep (ws @ [w]) = join_with sep ws @ sep @ w"
  by (induction sep ws rule: join_with.induct) auto

lemma join_with_last:
  "ws \<noteq> [] \<Longrightarrow> last ws \<noteq> [] \<Longrightarrow> join_with sep ws \<noteq> [] \<and> last (join_with sep ws) = last (last ws)"
  by (induction sep ws rule: join_with.induct) auto

lemma foldl_join_simple:
  assumes "\<forall>w \<in> set ws. w \<noteq> [] \<and> CHR ''/'' \<notin> set w"
  shows "foldl join d ws = d @ (if ws = [] then [] else root_sep d @ join_with ''/'' ws)"
  using assms
proof (induction ws rule: rev_induct)
  case Nil
  then show ?case by simp
next
  case (snoc w ws)
  then have w: "w \<noteq> []" "CHR ''/'' \<notin> set w" and ws: "\<forall>v \<in> set ws. v \<noteq> [] \<and> CHR ''/'' \<notin> set v"
    by auto
  show ?case
  proof (cases "ws = []")
    case True
    then show ?thesis
      using join_simple [OF w, of d] by (simp add: root_sep_def)
  next
    case False
    then have l: "last ws \<noteq> []" "CHR ''/'' \<notin> set (last ws)"
      using ws by auto
    define acc where "acc = d @ root_sep d @ join_with ''/'' ws"
    have j: "join_with ''/'' ws \<noteq> []" "last (join_with ''/'' ws) = last (last ws)"
      using join_with_last [OF False l(1)] by auto
    have "last acc = last (last ws)"
      using j by (simp add: acc_def)
    moreover have "last (last ws) \<noteq> CHR ''/''"
      using l by (metis last_in_set)
    ultimately have e: "\<not> endswith acc ''/''" and n: "acc \<noteq> []"
      using j by (auto simp: endswith_slash acc_def)
    have "foldl join d (ws @ [w]) = join acc w"
      using snoc.IH ws False by (simp add: acc_def)
    also have "\<dots> = acc @ ''/'' @ w"
      using join_simple [OF w, of acc] e n by simp
    finally show ?thesis
      using False by (simp add: acc_def join_with_snoc)
  qed
qed


lemma translate_path_formula:
  "translate_path env h p =
     directory h @
     (if path_words env p = [] then []
      else root_sep (directory h) @ join_with ''/'' (path_words env p)) @
     (if trailing_slash p then ''/'' else [])"
  using foldl_join_simple [of "path_words env p" "directory h"] path_words_simple [of _ env p]
  by (simp add: translate_path_def Let_def)

subsection \<open>The events of a run\<close>

lemma filter_prints [simp]:
  "filter is_chdir (map Print xs) = []" "filter is_respond (map Print xs) = []"
  by (induction xs) auto

lemma filter_responds [simp]:
  "filter is_chdir (map (\<lambda>rq. Respond (f rq)) rqs) = []"
  "filter is_respond (map (\<lambda>rq. Respond (f rq)) rqs) = map (\<lambda>rq. Respond (f rq)) rqs"
  by (induction rqs) auto

lemma except_clauses_events [simp]:
  "filter is_chdir (fst (except_clauses e)) = []" "filter is_respond (fst (except_clauses e)) = []"
  by (cases e; simp add: except_clauses_def)+

lemma with_body_events:
  "filter is_chdir (fst (with_body env w p)) = []"
  "filter is_respond (fst (with_body env w p)) =
     (if (case body_raises w of None \<Rightarrow> True | Some (i, e) \<Rightarrow> length banner \<le> i)
      then map (\<lambda>rq. Respond (response env (cwd p) rq)) (requests w) else [])"
  by (auto simp: with_body_def serve_forever_def split: option.splits)

lemma try_block_events:
  "filter is_chdir (fst (try_block env w p)) = []"
  "filter is_respond (fst (try_block env w p)) =
     (if serving_reached w then map (\<lambda>rq. Respond (response env (cwd p) rq)) (requests w) else [])"
  "take 1 (fst (try_block env w p)) = [Bind [] PORT]"
  using with_body_events [of env w p]
  by (auto simp: try_block_def serving_reached_def split: option.splits prod.splits)

lemma main_events:
  assumes "chdir_raises w = None"
  shows "\<exists>evs'. fst (main env w) =
           Chdir (script_directory w) # fst (try_block env w \<lparr>cwd = resolved w (script_directory w)\<rparr>) @ evs'
         \<and> filter is_chdir evs' = [] \<and> filter is_respond evs' = []"
proof (cases "try_block env w \<lparr>cwd = resolved w (script_directory w)\<rparr>")
  case (Pair evs r)
  show ?thesis
  proof (cases r)
    case None
    with Pair assms show ?thesis by (simp add: main_def Let_def)
  next
    case (Some e)
    with Pair assms show ?thesis
      by (simp add: main_def Let_def split: prod.splits) (metis except_clauses_events fst_conv)
  qed
qed

subsection \<open>The example machine\<close>












lemma demo_fs [simp]:
  "\<not> isdir demo_env ''/srv/demo/stage8-vfs-demo.html''"
  "\<not> isdir demo_env ''/srv/demo/missing.html''"
  "open_rb demo_env ''/srv/demo/stage8-vfs-demo.html'' = Some (demo_page, 1000)"
  "open_rb demo_env ''/srv/demo/missing.html'' = None"
  "\<not> endswith ''/srv/demo/stage8-vfs-demo.html'' ''/''"
  by (simp_all add: demo_env_def endswith_def)

lemma length_demo_page [simp]: "length demo_page = 17"
  by (simp add: demo_page_def)










section \<open>The claims about responses\<close>

subsection \<open>Where the three headers stand\<close>

text \<open>
  C2. The three injected headers come after all headers the inherited behaviour has
  buffered, and the injection leaves every one of those unchanged; it adds no
  content-type line and replaces none. In full: \<^verbatim>\<open>end_headers\<close> never fails; for a request
  of version \<^verbatim>\<open>HTTP/0.9\<close> it leaves the handler as it is; otherwise it writes the buffered
  lines as they are, then the three fixed lines, then the blank line, where the library's
  own \<^verbatim>\<open>end_headers\<close> writes the buffered lines and the blank line; nothing else of the
  handler changes. The content-type lines of the block are those that were buffered.
\<close>

theorem end_headers_frame:
  "end_headers h =
     Inr (if request_version h = ''HTTP/0.9'' then h
          else h\<lparr>headers_buffer := Some [],
                 wfile := wfile h @ concat (buffered h) @ concat fixed_headers @ CRLF\<rparr>)
   \<and> base_end_headers (h\<lparr>headers_buffer := Some (buffered h)\<rparr>) =
     Inr (if request_version h = ''HTTP/0.9'' then h\<lparr>headers_buffer := Some (buffered h)\<rparr>
          else h\<lparr>headers_buffer := Some [],
                 wfile := wfile h @ concat (buffered h) @ CRLF\<rparr>)
   \<and> content_type_lines (buffered h @ fixed_headers) = content_type_lines (buffered h)
   \<and> map header_name fixed_headers =
       [''access-control-allow-origin'', ''access-control-allow-methods'', ''cache-control'']"
  using end_headers_eq [of h] base_end_headers_eq [of h]
    content_type_lines_fixed [of "buffered h"] header_names_fixed
  by simp

theorem end_headers_frame_witness:
  "end_headers
     \<lparr>request_version = ''HTTP/1.1'', command = Some ''GET'', path = ''/'', headers = [],
      directory = ''/srv/demo'',
      headers_buffer = Some [''HTTP/1.0 200 OK'' @ CRLF, ''Content-type: text/html'' @ CRLF],
      wfile = [], close_connection = True\<rparr> =
   Inr \<lparr>request_version = ''HTTP/1.1'', command = Some ''GET'', path = ''/'', headers = [],
        directory = ''/srv/demo'', headers_buffer = Some [],
        wfile = ''HTTP/1.0 200 OK'' @ CRLF @ ''Content-type: text/html'' @ CRLF @
                ''Access-Control-Allow-Origin: *'' @ CRLF @
                ''Access-Control-Allow-Methods: GET'' @ CRLF @
                ''Cache-Control: no-store, no-cache, must-revalidate'' @ CRLF @ CRLF,
        close_connection = True\<rparr>"
  using end_headers_frame
    [of "\<lparr>request_version = ''HTTP/1.1'', command = Some ''GET'', path = ''/'', headers = [],
          directory = ''/srv/demo'',
          headers_buffer = Some [''HTTP/1.0 200 OK'' @ CRLF, ''Content-type: text/html'' @ CRLF],
          wfile = [], close_connection = True\<rparr>"]
  by (simp add: fixed_headers_def buffered_def)

subsection \<open>The three headers on every response\<close>




subsection \<open>Serving a file\<close>




subsection \<open>Confinement to the root\<close>



subsection \<open>The server root\<close>

text \<open>A path is its \<^verbatim>\<open>dirname\<close>, slashes, and its last component, which holds no slash.\<close>

lemma dirname_basename:
  "\<exists>n. f = dirname f @ replicate n CHR ''/'' @ basename f"
proof -
  define head where "head = rev (dropWhile (\<lambda>c. c \<noteq> CHR ''/'') (rev f))"
  have f: "f = head @ basename f"
    unfolding head_def basename_def
    by (metis rev_append rev_rev_ident takeWhile_dropWhile_id)
  have "\<exists>n. head = dirname f @ replicate n CHR ''/''"
  proof (cases "head \<noteq> [] \<and> head \<noteq> replicate (length head) CHR ''/''")
    case True
    then have d: "dirname f = rev (dropWhile (\<lambda>c. c = CHR ''/'') (rev head))"
      unfolding dirname_def Let_def head_def [symmetric] by simp
    define s where "s = takeWhile (\<lambda>c. c = CHR ''/'') (rev head)"
    have "\<forall>c \<in> set s. c = CHR ''/''"
      by (auto simp: s_def dest: set_takeWhileD)
    then have "replicate (length s) CHR ''/'' = s"
      by (simp add: replicate_length_same)
    then have "rev s = replicate (length s) CHR ''/''"
      by (metis rev_replicate)
    moreover have "head = dirname f @ rev s"
      unfolding d s_def by (metis rev_append rev_rev_ident takeWhile_dropWhile_id)
    ultimately show ?thesis by metis
  next
    case False
    then have "dirname f = head"
      unfolding dirname_def Let_def head_def [symmetric] by auto
    then show ?thesis
      by (metis append_Nil2 replicate_0)
  qed
  with f show ?thesis
    by (metis append_assoc)
qed

lemma basename_no_slash: "CHR ''/'' \<notin> set (basename f)"
  by (auto simp: basename_def dest: set_takeWhileD)

lemma parse_request_directory:
  assumes "parse_request env rq h0 = Inr (True, h1)"
  shows "directory h1 = directory h0"
proof (cases "words_of rq = []")
  case True
  then show ?thesis
    using assms by (simp add: parse_request_no_words)
next
  case False
  from parse_request_shape [OF False, of env h0] assms show ?thesis
    by (auto simp: at_version_def)
qed

lemma abspath_demo:
  "abspath \<lparr>cwd = initial_cwd demo_world\<rparr> (script_file demo_world) = ''/srv/demo/start-server.py''"
  by (simp add: demo_world_def abspath_def startswith_def normpath_demo)

text \<open>
  C6. At start-up, before the socket is bound and so before any request is served, the
  working directory is set to the directory of the script: the name given to \<^verbatim>\<open>os.chdir\<close>
  is the absolute name of the script file without its last component and the slashes
  before it. That happens exactly once in a run. Every response is computed by a handler
  made in that working directory, whose \<^verbatim>\<open>directory\<close> is the name \<^verbatim>\<open>os.getcwd()\<close> gives it;
  the handler that serves a request it has parsed still has that directory, and every
  name a request path resolves to begins with it.
\<close>

theorem server_root_is_script_directory:
  assumes "chdir_raises w = None"
  shows "(\<exists>n. abspath \<lparr>cwd = initial_cwd w\<rparr> (script_file w) =
             script_directory w @ replicate n CHR ''/'' @
             basename (abspath \<lparr>cwd = initial_cwd w\<rparr> (script_file w)))
   \<and> CHR ''/'' \<notin> set (basename (abspath \<lparr>cwd = initial_cwd w\<rparr> (script_file w)))
   \<and> take 2 (fst (main env w)) = [Chdir (script_directory w), Bind [] PORT]
   \<and> filter is_chdir (fst (main env w)) = [Chdir (script_directory w)]
   \<and> filter is_respond (fst (main env w)) =
       (if serving_reached w
        then map (\<lambda>rq. Respond (response env (resolved w (script_directory w)) rq)) (requests w)
        else [])
   \<and> directory (init_handler (resolved w (script_directory w))) = resolved w (script_directory w)
   \<and> (parse_request env rq (init_handler (resolved w (script_directory w))) = Inr (True, h1) \<longrightarrow>
        directory h1 = resolved w (script_directory w)
        \<and> take (length (resolved w (script_directory w))) (translate_path env h1 p) =
            resolved w (script_directory w))"
proof -
  obtain evs' where m: "fst (main env w) =
           Chdir (script_directory w) #
           fst (try_block env w \<lparr>cwd = resolved w (script_directory w)\<rparr>) @ evs'"
    and f: "filter is_chdir evs' = []" "filter is_respond evs' = []"
    using main_events [OF assms] by blast
  obtain evs where t: "fst (try_block env w \<lparr>cwd = resolved w (script_directory w)\<rparr>) = Bind [] PORT # evs"
    using try_block_events(3) [of env w "\<lparr>cwd = resolved w (script_directory w)\<rparr>"]
    by (cases "fst (try_block env w \<lparr>cwd = resolved w (script_directory w)\<rparr>)") auto
  have 0: "\<exists>n. abspath \<lparr>cwd = initial_cwd w\<rparr> (script_file w) =
             script_directory w @ replicate n CHR ''/'' @
             basename (abspath \<lparr>cwd = initial_cwd w\<rparr> (script_file w))"
    unfolding script_directory_def by (rule dirname_basename)
  have 1: "take 2 (fst (main env w)) = [Chdir (script_directory w), Bind [] PORT]"
    by (simp add: m t)
  have 2: "filter is_chdir (fst (main env w)) = [Chdir (script_directory w)]"
    by (simp add: m f try_block_events)
  have 3: "filter is_respond (fst (main env w)) =
       (if serving_reached w
        then map (\<lambda>rq. Respond (response env (resolved w (script_directory w)) rq)) (requests w)
        else [])"
    by (simp add: m f try_block_events)
  have 4: "directory (init_handler (resolved w (script_directory w))) = resolved w (script_directory w)"
    by simp
  have 5: "directory h1 = resolved w (script_directory w)
        \<and> take (length (resolved w (script_directory w))) (translate_path env h1 p) =
            resolved w (script_directory w)"
    if "parse_request env rq (init_handler (resolved w (script_directory w))) = Inr (True, h1)"
    using parse_request_directory [OF that] by (simp add: translate_path_formula)
  show ?thesis using 0 basename_no_slash 1 2 3 4 5 by blast
qed

theorem server_root_is_script_directory_witness:
  "abspath \<lparr>cwd = initial_cwd demo_world\<rparr> (script_file demo_world) = ''/srv/demo/start-server.py''
   \<and> fst (main demo_env (demo_world\<lparr>bind_raises := None, body_raises := None\<rparr>)) =
     Chdir ''/srv/demo'' # Bind [] 8000 # map Print banner @
     [Respond (response demo_env ''/srv/demo'' get_demo),
      Respond (response demo_env ''/srv/demo'' get_missing)]
   \<and> filter is_chdir (fst (main demo_env (demo_world\<lparr>bind_raises := None, body_raises := None\<rparr>)))
       = [Chdir ''/srv/demo'']
   \<and> filter is_respond (fst (main demo_env (demo_world\<lparr>bind_raises := None, body_raises := None\<rparr>)))
       = [Respond (response demo_env ''/srv/demo'' get_demo),
          Respond (response demo_env ''/srv/demo'' get_missing)]
   \<and> script_directory (demo_world\<lparr>initial_cwd := ''/srv/demo'', script_file := ''start-server.py''\<rparr>)
       = ''/srv/demo''"
  using server_root_is_script_directory
    [of "demo_world\<lparr>bind_raises := None, body_raises := None\<rparr>" demo_env]
  by (simp add: serving_reached_def main_def try_block_def with_body_def serve_forever_def
      Let_def PORT_def script_directory_relative abspath_demo)

end
